theory Spec2Isabelle
  imports Complex_Main
begin

section \<open>Text primitives of the Python runtime\<close>

text \<open>
  The dashboard script \<^verbatim>\<open>app.py\<close> reads a spreadsheet of festival entries and
  derives everything from the free-text column \<^verbatim>\<open>countries\<close>. Its text handling
  uses three methods of Python's \<^verbatim>\<open>str\<close>: \<^verbatim>\<open>strip()\<close>, \<^verbatim>\<open>split(',')\<close> and
  \<^verbatim>\<open>title()\<close>, modelled under the names \<open>str_strip\<close>, \<open>str_split\<close> and
  \<open>str_title\<close>.

  A text of the spreadsheet is a \<^typ>\<open>string\<close>, one \<^typ>\<open>char\<close> per character: the
  \<^typ>\<open>char\<close> of code \<open>n\<close> is the Unicode code point \<open>n\<close>, so that the texts of the
  model are the texts in Latin-1 (code points 0 to 255), and the tables below are those
  of Python on these code points. Title-casing can leave Latin-1, so its result is a
  list of code points, each a \<^typ>\<open>nat\<close>.

  White space, as \<^verbatim>\<open>str.isspace\<close> and \<^verbatim>\<open>strip()\<close> see it below code 256: the
  ranges 9 to 13 and 28 to 32, the next-line control 133 and the no-break space 160.
\<close>

definition isspace :: "char \<Rightarrow> bool" where
  "isspace c =
     (let n = (of_char c :: nat)
      in (9 \<le> n \<and> n \<le> 13) \<or> (28 \<le> n \<and> n \<le> 32) \<or> n = 133 \<or> n = 160)"

text \<open>
  The cased characters below code 256 are those with the Unicode property Uppercase
  (the capital letters A to Z and 192 to 222 without the sign 215) or Lowercase (the
  small letters a to z and 223 to 255 without the sign 247, the ordinal indicators 170
  and 186 and the micro sign 181).
\<close>

definition isupper :: "char \<Rightarrow> bool" where
  "isupper c =
     (let n = (of_char c :: nat)
      in (65 \<le> n \<and> n \<le> 90) \<or> (192 \<le> n \<and> n \<le> 214) \<or> (216 \<le> n \<and> n \<le> 222))"

definition islower :: "char \<Rightarrow> bool" where
  "islower c =
     (let n = (of_char c :: nat)
      in (97 \<le> n \<and> n \<le> 122) \<or> n = 170 \<or> n = 181 \<or> n = 186
         \<or> (223 \<le> n \<and> n \<le> 246) \<or> (248 \<le> n \<and> n \<le> 255))"

definition iscased :: "char \<Rightarrow> bool" where
  "iscased c = (isupper c \<or> islower c)"

text \<open>
  A text of code points, and the code points of a text of the model.
\<close>

type_synonym ustr = "nat list"

definition ustr :: "string \<Rightarrow> ustr" where
  "ustr s = map of_char s"

text \<open>
  The full title-case and lower-case mappings of one character. A small letter has its
  capital 32 places before it; the capitals of the micro sign and of y with diaeresis
  are the code points 924 and 376 beyond Latin-1; the sharp s 223 becomes the two
  letters \<^verbatim>\<open>Ss\<close>; the ordinal indicators have no capital. A capital letter has its
  small letter 32 places after it. Every other character maps to itself.
\<close>

definition to_title :: "char \<Rightarrow> ustr" where
  "to_title c =
     (let n = (of_char c :: nat)
      in if (97 \<le> n \<and> n \<le> 122) \<or> (224 \<le> n \<and> n \<le> 246) \<or> (248 \<le> n \<and> n \<le> 254)
         then [n - 32]
         else if n = 181 then [924]
         else if n = 223 then [83, 115]
         else if n = 255 then [376]
         else [n])"

definition to_lower :: "char \<Rightarrow> ustr" where
  "to_lower c = (let n = (of_char c :: nat) in if isupper c then [n + 32] else [n])"

text \<open>\<^verbatim>\<open>s.strip()\<close>: white space is removed at both ends, never inside.\<close>

definition str_strip :: "string \<Rightarrow> string" where
  "str_strip s = rev (dropWhile isspace (rev (dropWhile isspace s)))"

text \<open>
  \<^verbatim>\<open>s.split(',')\<close>: every comma ends a token, so a text with \<open>n\<close> commas has
  \<open>n + 1\<close> tokens, empty ones included, and the empty text has the one token \<^verbatim>\<open>''\<close>.
\<close>

fun str_split :: "string \<Rightarrow> string list" where
  "str_split [] = [ [] ]"
| "str_split (c # cs) =
     (if c = CHR '','' then [] # str_split cs
      else (case str_split cs of
              [] \<Rightarrow> [ [c] ]
            | t # ts \<Rightarrow> (c # t) # ts))"

text \<open>
  \<^verbatim>\<open>s.title()\<close>: CPython walks the text with the flag \<^verbatim>\<open>previous_is_cased\<close>; a
  character after a cased one is mapped to lower case, any other to title case, and the
  flag becomes whether the character just read is cased.
\<close>

fun title_from :: "bool \<Rightarrow> string \<Rightarrow> ustr" where
  "title_from previous_is_cased [] = []"
| "title_from previous_is_cased (c # cs) =
     (if previous_is_cased then to_lower c else to_title c) @ title_from (iscased c) cs"

definition str_title :: "string \<Rightarrow> ustr" where
  "str_title s = title_from False s"

section \<open>The helper functions of the script\<close>

text \<open>
  A cell of a text column is either missing (pandas' NaN, for which \<^verbatim>\<open>pd.isna\<close>
  holds) or a text: \<^typ>\<open>string option\<close>, with \<^term>\<open>None\<close> for the missing cell.

  \<^verbatim>\<open>
  def get_countries_from_string(country_string):
      if pd.isna(country_string) or country_string.strip() == "":
          return []
      return [c.strip().title() for c in country_string.split(',') if c.strip()]
  \<close>
\<close>

definition get_countries_from_string :: "string option \<Rightarrow> ustr list" where
  "get_countries_from_string country_string =
     (case country_string of
        None \<Rightarrow> []
      | Some s \<Rightarrow>
          if str_strip s = [] then []
          else map (\<lambda>c. str_title (str_strip c)) (filter (\<lambda>c. str_strip c \<noteq> []) (str_split s)))"


text \<open>
  \<^verbatim>\<open>Series.dropna()\<close> keeps the cells that are present, in order.
\<close>

definition dropna :: "'a option list \<Rightarrow> 'a option list" where
  "dropna cells = filter (\<lambda>cell. cell \<noteq> None) cells"

text \<open>
  \<^verbatim>\<open>collections.Counter\<close> is a dictionary of counts; a dictionary keeps its keys in
  the order of first insertion, so it is an association list here. Counting an
  element either bumps its entry in place or appends a new entry with count 1.
\<close>

fun counter_add :: "'a \<Rightarrow> ('a \<times> nat) list \<Rightarrow> ('a \<times> nat) list" where
  "counter_add x [] = [(x, 1)]"
| "counter_add x ((k, n) # kvs) =
     (if k = x then (k, n + 1) # kvs else (k, n) # counter_add x kvs)"

definition Counter :: "'a list \<Rightarrow> ('a \<times> nat) list" where
  "Counter xs = fold counter_add xs []"

text \<open>
  Reading a counter at a key that it does not hold gives 0, as \<^verbatim>\<open>Counter.__missing__\<close>
  does.
\<close>

definition counter_get :: "('a \<times> nat) list \<Rightarrow> 'a \<Rightarrow> nat" where
  "counter_get kvs k = (case map_of kvs k of None \<Rightarrow> 0 | Some n \<Rightarrow> n)"

text \<open>
  Sorting a table of counts from the largest count down. The insertion sort of the
  library is stable, which is what \<^verbatim>\<open>Counter.most_common\<close> promises (it is
  \<^verbatim>\<open>sorted(items, key=itemgetter(1), reverse=True)[:n]\<close>); pandas'
  \<^verbatim>\<open>sort_values(ascending=False)\<close> promises no order among equal counts, and the
  model fixes the stable one.
\<close>

definition sort_descending :: "('a \<times> nat) list \<Rightarrow> ('a \<times> nat) list" where
  "sort_descending kvs = sort_key (\<lambda>kv. - int (snd kv)) kvs"

definition most_common :: "nat \<Rightarrow> ('a \<times> nat) list \<Rightarrow> ('a \<times> nat) list" where
  "most_common n kvs = take n (sort_descending kvs)"

section \<open>The spreadsheet and the loaded data frame\<close>

text \<open>
  One row of the spreadsheet is one festival entry. The optional columns
  \<^verbatim>\<open>section\<close>, \<^verbatim>\<open>productoras_normalizadas\<close> and \<^verbatim>\<open>productoras_consolidadas\<close>
  may be missing from the file as a whole; the sheet records which columns it has, and
  the field of a missing column is never read. The column \<^verbatim>\<open>year\<close> is taken as
  already integral, so that \<^verbatim>\<open>astype(int)\<close> changes nothing.
\<close>

record row =
  title :: string
  director :: string
  year :: int
  countries :: "string option"
  section_name :: "string option"
  productoras_normalizadas :: "string option"
  productoras_consolidadas :: "string option"

record sheet =
  rows :: "row list"
  has_countries :: bool
  has_section :: bool
  has_productoras_normalizadas :: bool
  has_productoras_consolidadas :: bool

text \<open>
  \<^verbatim>\<open>load_data\<close> adds to every row the column \<^verbatim>\<open>countries_for_analysis\<close>, one
  0/1 column per country of the vocabulary (kept here as the association list
  \<open>country_flags\<close>, in the order of the vocabulary), the column
  \<^verbatim>\<open>total_movies\<close> and, when a source column exists, the column
  \<^verbatim>\<open>productoras_consolidadas_normalized\<close>. The frame keeps the names of its
  country columns, which it has even when it has no rows.

  The names of the country columns are outputs of \<^verbatim>\<open>title()\<close>, which never start
  with one of the letters a to z (lemma \<open>country_name_initial\<close> below), unlike every
  column name that the script reads or writes; the file is taken to hold no other column
  under the name of a country.
\<close>

record drow = row +
  countries_for_analysis :: "string option"
  country_flags :: "(ustr \<times> int) list"
  total_movies :: int
  productoras_consolidadas_normalized :: "string option"

record dataframe =
  drows :: "drow list"
  country_names :: "ustr list"
  with_section :: bool
  with_productoras :: bool

datatype stop = MissingFile | MissingColumn

datatype py_error = KeyError

text \<open>
  \<^verbatim>\<open>
  unique_countries = set()
  for countries in df['countries_for_analysis'].dropna():
      unique_countries.update(get_countries_from_string(countries))
  unique_countries = list(unique_countries)
  \<close>
  A Python set has no promised order; the model keeps the order of first insertion.
\<close>

definition set_update :: "'a list \<Rightarrow> 'a list \<Rightarrow> 'a list" where
  "set_update s xs = fold (\<lambda>x acc. if x \<in> set acc then acc else acc @ [x]) xs s"

definition unique_countries :: "string option list \<Rightarrow> ustr list" where
  "unique_countries column =
     fold (\<lambda>countries acc. set_update acc (get_countries_from_string countries))
       (dropna column) []"

text \<open>
  \<^verbatim>\<open>
  for country in unique_countries:
      country_columns[country] = df['countries_for_analysis'].apply(
          lambda x: 1 if country in get_countries_from_string(x) else 0)
  \<close>
  read row by row: the cells of one row in all the country columns.
\<close>

definition country_columns :: "ustr list \<Rightarrow> string option \<Rightarrow> (ustr \<times> int) list" where
  "country_columns vocabulary x =
     map (\<lambda>country. (country, if country \<in> set (get_countries_from_string x) then 1 else 0))
       vocabulary"

text \<open>
  \<^verbatim>\<open>
  if 'productoras_normalizadas' in df.columns:
      df['productoras_consolidadas_normalized'] = df['productoras_normalizadas']
  elif 'productoras_consolidadas' in df.columns:
      df['productoras_consolidadas_normalized'] = df['productoras_consolidadas']
  \<close>
\<close>

definition producer_column :: "sheet \<Rightarrow> row \<Rightarrow> string option" where
  "producer_column file r =
     (if has_productoras_normalizadas file then productoras_normalizadas r
      else if has_productoras_consolidadas file then productoras_consolidadas r
      else None)"

text \<open>
  \<^verbatim>\<open>load_data\<close>: the argument is what is found at the path of the spreadsheet,
  \<^term>\<open>None\<close> when there is no file. Both \<^verbatim>\<open>st.stop()\<close> branches end the script.
  The result is the pair \<^verbatim>\<open>(df, unique_countries)\<close>.
\<close>

definition load_data :: "sheet option \<Rightarrow> stop + (dataframe \<times> ustr list)" where
  "load_data found =
     (case found of
        None \<Rightarrow> Inl MissingFile
      | Some file \<Rightarrow>
          if \<not> has_countries file then Inl MissingColumn
          else
            let vocabulary = unique_countries (map countries (rows file));
                expand = (\<lambda>r.
                  let flags = country_columns vocabulary (countries r)
                  in \<lparr> title = title r, director = director r, year = year r,
                       countries = countries r, section_name = section_name r,
                       productoras_normalizadas = productoras_normalizadas r,
                       productoras_consolidadas = productoras_consolidadas r,
                       countries_for_analysis = countries r,
                       country_flags = flags,
                       total_movies = sum_list (map snd flags),
                       productoras_consolidadas_normalized = producer_column file r \<rparr>)
            in Inr (\<lparr> drows = map expand (rows file),
                       country_names = vocabulary,
                       with_section = has_section file,
                       with_productoras =
                         (has_productoras_normalizadas file \<or> has_productoras_consolidadas file) \<rparr>,
                    vocabulary))"

text \<open>
  Reading the cell of a row in a country column. Every function below first checks
  that the frame has the column (pandas raises \<^verbatim>\<open>KeyError\<close> otherwise), so the
  default is never taken on a frame that \<^verbatim>\<open>load_data\<close> built.
\<close>

definition flag :: "drow \<Rightarrow> ustr \<Rightarrow> int" where
  "flag r country = (case map_of (country_flags r) country of None \<Rightarrow> 0 | Some v \<Rightarrow> v)"

section \<open>Filters\<close>

text \<open>
  The widgets of the side bar: the year slider, the multiselect of countries and the
  select box of sections. The select box exists only when the frame has the column
  \<^verbatim>\<open>section\<close>; otherwise the script sets \<^verbatim>\<open>selected_section = "Todas"\<close>.
\<close>

record filters =
  year_range :: "int \<times> int"
  selected_countries :: "ustr list"
  section_choice :: string

definition selected_section :: "dataframe \<Rightarrow> filters \<Rightarrow> string" where
  "selected_section df f = (if with_section df then section_choice f else ''Todas'')"

text \<open>
  \<^verbatim>\<open>
  filtered_df = df[(df["year"] >= year_range[0]) & (df["year"] <= year_range[1])]
  if 'section' in df.columns and selected_section != "Todas":
      filtered_df = filtered_df[filtered_df['section'] == selected_section]
  \<close>
  A missing section cell is equal to no text.
\<close>

definition filtered_df :: "dataframe \<Rightarrow> filters \<Rightarrow> dataframe" where
  "filtered_df df f =
     (let filtered =
            df\<lparr>drows := filter (\<lambda>r. fst (year_range f) \<le> year r \<and> year r \<le> snd (year_range f))
                             (drows df)\<rparr>
      in if with_section df \<and> selected_section df f \<noteq> ''Todas''
         then filtered\<lparr>drows := filter (\<lambda>r. section_name r = Some (selected_section df f))
                                     (drows filtered)\<rparr>
         else filtered)"

section \<open>Numbers of the aggregations\<close>

text \<open>
  The means and the percentages are float64 values in pandas. A float64 operation
  returns its exact result rounded; the model keeps the values as rationals and takes
  the rounding as a parameter \<open>rnd\<close> of every function that computes with floats, so
  that the exact arithmetic is the instance \<^term>\<open>id :: rat \<Rightarrow> rat\<close> and float64 is any
  \<open>rnd\<close> whose result differs from its argument \<open>x\<close> by at most \<open>u * \<bar>x\<bar>\<close>, with \<open>u\<close>
  the unit roundoff \<^verbatim>\<open>2**-53\<close>. The counts that are divided are integers far below
  \<^verbatim>\<open>2**53\<close>, which float64 holds exactly. The three values that are not numbers are kept: a
  division of 0 by 0 is NaN and a division of another number by 0 is an infinity, as
  in numpy.
\<close>

datatype fval = Finite rat | NaN | PosInf | NegInf

definition true_div :: "(rat \<Rightarrow> rat) \<Rightarrow> int \<Rightarrow> int \<Rightarrow> fval" where
  "true_div rnd a b =
     (if b \<noteq> 0 then Finite (rnd (of_int a / of_int b))
      else if a = 0 then NaN
      else if 0 < a then PosInf
      else NegInf)"

fun times :: "(rat \<Rightarrow> rat) \<Rightarrow> fval \<Rightarrow> rat \<Rightarrow> fval" where
  "times rnd (Finite q) k = Finite (rnd (q * k))"
| "times rnd NaN k = NaN"
| "times rnd PosInf k = (if 0 < k then PosInf else if k < 0 then NegInf else NaN)"
| "times rnd NegInf k = (if 0 < k then NegInf else if k < 0 then PosInf else NaN)"

text \<open>\<^verbatim>\<open>Series.mean()\<close>: the mean of no value is NaN.\<close>

definition mean :: "(rat \<Rightarrow> rat) \<Rightarrow> int list \<Rightarrow> fval" where
  "mean rnd xs =
     (if xs = [] then NaN else Finite (rnd (of_int (sum_list xs) / of_nat (length xs))))"

text \<open>
  \<^verbatim>\<open>groupby('year')\<close>: one group per year that occurs, the years ascending, each
  group holding its rows in their order.
\<close>

definition groupby_year :: "drow list \<Rightarrow> (int \<times> drow list) list" where
  "groupby_year rs =
     map (\<lambda>y. (y, filter (\<lambda>r. year r = y) rs)) (sort (remdups (map year rs)))"

section \<open>Tab 1: evolution over time\<close>

text \<open>
  \<^verbatim>\<open>
  df_line = filtered_df.groupby("year")[selected_countries].sum().reset_index()
  \<close>
  one line per year, holding for each selected country the sum of its column over the
  rows of that year. The tab computes the table only when the selection is not empty.
  The multiselect offers the vocabulary only, so a selected name is a country column
  or, in the model, a \<^verbatim>\<open>KeyError\<close>.
\<close>

definition df_line :: "dataframe \<Rightarrow> ustr list \<Rightarrow> py_error + (int \<times> (ustr \<times> int) list) list" where
  "df_line fdf selected =
     (if \<not> set selected \<subseteq> set (country_names fdf) then Inl KeyError
      else Inr (map (\<lambda>(y, group).
                  (y, map (\<lambda>country. (country, sum_list (map (\<lambda>r. flag r country) group)))
                        selected))
                (groupby_year (drows fdf))))"

text \<open>
  \<^verbatim>\<open>
  df_percent = df_line.copy()
  row_sums = df_percent[selected_countries].sum(axis=1)
  for country in selected_countries:
      df_percent[country] = df_percent[country] / row_sums * 100
  \<close>
\<close>

definition df_percent ::
  "(rat \<Rightarrow> rat) \<Rightarrow> (int \<times> (ustr \<times> int) list) list \<Rightarrow> (int \<times> (ustr \<times> fval) list) list" where
  "df_percent rnd line =
     map (\<lambda>(y, cells).
            let row_sum = sum_list (map snd cells)
            in (y, map (\<lambda>(country, v). (country, times rnd (true_div rnd v row_sum) 100)) cells))
         line"

section \<open>Tab 2: geographic distribution and co-productions\<close>

text \<open>
  \<^verbatim>\<open>
  def count_countries(df, country_column):
      all_countries = []
      for countries in df[country_column].dropna():
          all_countries.extend(get_countries_from_string(countries))
      return Counter(all_countries)
  \<close>
  The script calls it on the column \<^verbatim>\<open>countries_for_analysis\<close> of the filtered
  frame.
\<close>

definition count_countries :: "string option list \<Rightarrow> (ustr \<times> nat) list" where
  "count_countries column =
     (let all_countries = concat (map get_countries_from_string (dropna column))
      in Counter all_countries)"

definition country_counts :: "dataframe \<Rightarrow> (ustr \<times> nat) list" where
  "country_counts fdf = count_countries (map countries_for_analysis (drows fdf))"

text \<open>
  \<^verbatim>\<open>df_counts.sort_values(..., ascending=False)\<close> on the column of counts and the bar chart of
  \<^verbatim>\<open>df_counts.head(15)\<close>.
\<close>

definition df_counts :: "dataframe \<Rightarrow> (ustr \<times> nat) list" where
  "df_counts fdf = sort_descending (country_counts fdf)"

definition fig_bars :: "dataframe \<Rightarrow> (ustr \<times> nat) list" where
  "fig_bars fdf = take 15 (df_counts fdf)"

text \<open>
  \<^verbatim>\<open>
  filtered_df['num_countries'] = filtered_df['countries_for_analysis'].apply(
      lambda x: 0 if pd.isna(x) else len(get_countries_from_string(x)))
  filtered_df['has_country_data'] = filtered_df['countries_for_analysis'].notna()
                                    & (filtered_df['countries_for_analysis'] != "")
  \<close>
\<close>

definition num_countries :: "drow \<Rightarrow> int" where
  "num_countries r =
     (case countries_for_analysis r of
        None \<Rightarrow> 0
      | Some s \<Rightarrow> int (length (get_countries_from_string (Some s))))"

definition has_country_data :: "drow \<Rightarrow> bool" where
  "has_country_data r =
     (countries_for_analysis r \<noteq> None \<and> countries_for_analysis r \<noteq> Some [])"

text \<open>
  The script binds the name \<^verbatim>\<open>avg_countries\<close> twice. The first binding, under the
  comment that only films with country data enter the mean, is
  \<^verbatim>\<open>
  avg_countries = filtered_df[filtered_df['has_country_data']]
                    .groupby('year')['num_countries'].mean().reset_index()
  \<close>
  and the second, just before the chart \<^verbatim>\<open>fig_avg\<close> is drawn from the name, is
  \<^verbatim>\<open>
  avg_countries = filtered_df.groupby('year')['num_countries'].mean().reset_index()
  \<close>
\<close>

definition avg_countries_with_data :: "(rat \<Rightarrow> rat) \<Rightarrow> dataframe \<Rightarrow> (int \<times> fval) list" where
  "avg_countries_with_data rnd fdf =
     map (\<lambda>(y, group). (y, mean rnd (map num_countries group)))
       (groupby_year (filter has_country_data (drows fdf)))"

definition avg_countries_all :: "(rat \<Rightarrow> rat) \<Rightarrow> dataframe \<Rightarrow> (int \<times> fval) list" where
  "avg_countries_all rnd fdf =
     map (\<lambda>(y, group). (y, mean rnd (map num_countries group))) (groupby_year (drows fdf))"

text \<open>The table that the chart of the mean per year shows: the value of the name when
  \<^verbatim>\<open>px.line(avg_countries, ...)\<close> runs.\<close>

definition fig_avg :: "(rat \<Rightarrow> rat) \<Rightarrow> dataframe \<Rightarrow> (int \<times> fval) list" where
  "fig_avg rnd fdf =
     (let avg_countries = avg_countries_with_data rnd fdf;
          avg_countries = avg_countries_all rnd fdf
      in avg_countries)"

section \<open>Tab 3: producers by country\<close>

text \<open>
  \<^verbatim>\<open>
  filtered_df["productoras_lista"] = filtered_df["productoras_consolidadas_normalized"].apply(
      lambda x: [] if pd.isna(x) else [p.strip() for p in str(x).split(',')])
  \<close>
\<close>

definition productoras_lista :: "drow \<Rightarrow> string list" where
  "productoras_lista r =
     (case productoras_consolidadas_normalized r of
        None \<Rightarrow> []
      | Some x \<Rightarrow> map str_strip (str_split x))"

text \<open>
  \<^verbatim>\<open>
  def get_top_productoras(df, country_column, country_value, n=10):
      country_movies = df[df[country_column] == 1]
      all_productoras = []
      for productoras in country_movies["productoras_lista"]:
          all_productoras.extend(productoras)
      counter = Counter(all_productoras)
      return counter.most_common(n)
  \<close>
  The parameter \<^verbatim>\<open>country_value\<close> is not read by the body. The function is
  defined inside the branch of the tab that has just added the column
  \<^verbatim>\<open>productoras_lista\<close>; on a frame without it, or without the country column,
  indexing raises \<^verbatim>\<open>KeyError\<close>.
\<close>

definition get_top_productoras ::
  "dataframe \<Rightarrow> ustr \<Rightarrow> int \<Rightarrow> nat \<Rightarrow> py_error + (string \<times> nat) list" where
  "get_top_productoras df country_column country_value n =
     (if country_column \<notin> set (country_names df) \<or> \<not> with_productoras df then Inl KeyError
      else
        let country_movies = filter (\<lambda>r. flag r country_column = 1) (drows df);
            all_productoras = concat (map productoras_lista country_movies);
            counter = Counter all_productoras
        in Inr (most_common n counter))"

text \<open>
  What the tab shows: the ranking, the notice that the country has no producer data
  in the period (\<^verbatim>\<open>st.info\<close>), or the warning that the frame has no producer
  column (\<^verbatim>\<open>st.warning\<close>). An exception ends the script.
\<close>

datatype tab3_view =
    Ranking "(string \<times> nat) list"
  | Info_no_data ustr
  | Warning_no_column
  | Exception py_error

definition tab3 :: "dataframe \<Rightarrow> ustr \<Rightarrow> tab3_view" where
  "tab3 fdf selected_country =
     (if with_productoras fdf then
        (case get_top_productoras fdf selected_country 1 10 of
           Inl e \<Rightarrow> Exception e
         | Inr top_productoras \<Rightarrow>
             if top_productoras \<noteq> [] then Ranking top_productoras
             else Info_no_data selected_country)
      else Warning_no_column)"

section \<open>The quantities that the specification names\<close>

text \<open>
  The specification describes the parser as a chain: split the field on commas, trim
  every token, discard the tokens that are empty after trimming, title-case the rest; a
  blank or absent field is the empty list. The two definitions follow these words, to
  be compared with \<^const>\<open>get_countries_from_string\<close>.
\<close>

definition parse_countries_field :: "string option \<Rightarrow> ustr list" where
  "parse_countries_field x =
     (case x of
        None \<Rightarrow> []
      | Some s \<Rightarrow> map str_title (filter (\<lambda>t. t \<noteq> []) (map str_strip (str_split s))))"

definition blank_or_absent :: "string option \<Rightarrow> bool" where
  "blank_or_absent x = (case x of None \<Rightarrow> True | Some s \<Rightarrow> \<forall>c\<in>set s. isspace c)"

text \<open>
  The contract of the filter layer in the words of the specification: the year lies
  in the range, and the section is the sentinel \<^verbatim>\<open>"Todas"\<close> or the section of the
  record.
\<close>

definition passes_filter :: "dataframe \<Rightarrow> filters \<Rightarrow> drow \<Rightarrow> bool" where
  "passes_filter df f r =
     (fst (year_range f) \<le> year r \<and> year r \<le> snd (year_range f)
      \<and> (selected_section df f = ''Todas'' \<or> section_name r = Some (selected_section df f)))"

text \<open>
  Two ways of counting a country over the records of a frame: the sum of its
  membership flag, and the number of times it occurs among the parsed tokens.
\<close>

definition flag_total :: "dataframe \<Rightarrow> ustr \<Rightarrow> int" where
  "flag_total fdf country = sum_list (map (\<lambda>r. flag r country) (drows fdf))"

definition occurrences :: "dataframe \<Rightarrow> ustr \<Rightarrow> nat" where
  "occurrences fdf country =
     sum_list (map (\<lambda>r. count_list (get_countries_from_string (countries_for_analysis r)) country)
                 (drows fdf))"

text \<open>
  The sum of the flag of a country over the records of one year, and the total of
  these sums over the selected countries: the row total of that year.
\<close>

definition year_count :: "dataframe \<Rightarrow> int \<Rightarrow> ustr \<Rightarrow> int" where
  "year_count fdf y country =
     sum_list (map (\<lambda>r. flag r country) (filter (\<lambda>r. year r = y) (drows fdf)))"

definition year_total :: "dataframe \<Rightarrow> ustr list \<Rightarrow> int \<Rightarrow> int" where
  "year_total fdf selected y = sum_list (map (year_count fdf y) selected)"

text \<open>
  The share of a country in a year: its sum of flags divided by the row total, times
  100, as the two float operations compute it and as a number.
\<close>

definition float_share :: "(rat \<Rightarrow> rat) \<Rightarrow> dataframe \<Rightarrow> ustr list \<Rightarrow> int \<Rightarrow> ustr \<Rightarrow> rat" where
  "float_share rnd fdf selected y country =
     rnd (rnd (of_int (year_count fdf y country) / of_int (year_total fdf selected y)) * 100)"

definition exact_share :: "dataframe \<Rightarrow> ustr list \<Rightarrow> int \<Rightarrow> ustr \<Rightarrow> rat" where
  "exact_share fdf selected y country =
     of_int (year_count fdf y country) / of_int (year_total fdf selected y) * 100"

text \<open>The records of one year, over which a mean of that year is taken.\<close>

definition year_group :: "drow list \<Rightarrow> int \<Rightarrow> drow list" where
  "year_group rs y = filter (\<lambda>r. year r = y) rs"

section \<open>Example data\<close>

text \<open>
  A festival entry with a year and a countries cell, its other optional cells missing;
  a file that has every column; the widget state that selects a range of years, all
  sections and no country; and the frame that \<^const>\<open>load_data\<close> returns for a file
  (a frame without rows and columns when the script stops instead).
\<close>

definition entry :: "int \<Rightarrow> string option \<Rightarrow> row" where
  "entry y c =
     \<lparr> title = ''T'', director = ''D'', year = y, countries = c, section_name = None,
       productoras_normalizadas = None, productoras_consolidadas = None \<rparr>"

definition sheet_of :: "row list \<Rightarrow> sheet" where
  "sheet_of rs =
     \<lparr> rows = rs, has_countries = True, has_section = True,
       has_productoras_normalizadas = True, has_productoras_consolidadas = True \<rparr>"

definition all_years :: "int \<Rightarrow> int \<Rightarrow> filters" where
  "all_years lo hi = \<lparr> year_range = (lo, hi), selected_countries = [], section_choice = ''Todas'' \<rparr>"

definition frame_of :: "sheet \<Rightarrow> dataframe" where
  "frame_of sh =
     (case load_data (Some sh) of
        Inr (df, vocabulary) \<Rightarrow> df
      | Inl e \<Rightarrow> \<lparr> drows = [], country_names = [], with_section = False, with_productoras = False \<rparr>)"

text \<open>The three records of the example of the specification.\<close>

definition spec_example :: sheet where
  "spec_example =
     sheet_of [entry 2020 (Some ''France, USA''), entry 2020 (Some ''France''), entry 2021 (Some '''')]"

text \<open>One entry of France whose two producer cells differ.\<close>

definition producers_example :: sheet where
  "producers_example =
     sheet_of [(entry 2020 (Some ''France''))
                 \<lparr>productoras_normalizadas := Some ''A, B'', productoras_consolidadas := Some ''C''\<rparr>]"

section \<open>Properties of the text primitives\<close>

lemma str_split_not_Nil: "str_split s \<noteq> []"
  by (induction s) (auto split: list.splits)

text \<open>A text with \<open>n\<close> commas has \<open>n + 1\<close> tokens, and no token holds a comma.\<close>

lemma length_str_split: "length (str_split s) = count_list s (CHR '','') + 1"
  by (induction s) (auto split: list.splits)

lemma str_split_no_comma: "CHR '','' \<notin> set s \<Longrightarrow> str_split s = [s]"
  by (induction s) (auto split: list.splits)

lemma str_split_tokens: "t \<in> set (str_split s) \<Longrightarrow> CHR '','' \<notin> set t"
  by (induction s arbitrary: t) (auto split: list.splits if_splits)

lemma str_split_chars: "t \<in> set (str_split s) \<Longrightarrow> set t \<subseteq> set s"
proof (induction s arbitrary: t)
  case Nil
  then show ?case by simp
next
  case (Cons a s)
  show ?case
  proof (cases "a = CHR '',''")
    case True
    then show ?thesis using Cons by auto
  next
    case False
    then obtain u us where u: "str_split s = u # us" and t: "t = a # u \<or> t \<in> set us"
      using Cons.prems str_split_not_Nil [of s] by (cases "str_split s") auto
    from t show ?thesis
    proof
      assume "t = a # u"
      moreover have "set u \<subseteq> set s" using Cons.IH [of u] u by simp
      ultimately show ?thesis by auto
    next
      assume "t \<in> set us"
      then have "set t \<subseteq> set s" using Cons.IH [of t] u by simp
      then show ?thesis by auto
    qed
  qed
qed

lemma isspace_not_comma: "isspace c \<Longrightarrow> c \<noteq> CHR '',''"
  by (auto simp: isspace_def)

text \<open>Trimming leaves nothing exactly when the text is white space throughout.\<close>

lemma str_strip_Nil_iff: "str_strip s = [] \<longleftrightarrow> (\<forall>c\<in>set s. isspace c)"
proof
  assume "str_strip s = []"
  then have a: "\<forall>c\<in>set (dropWhile isspace s). isspace c"
    by (simp add: str_strip_def dropWhile_eq_Nil_conv)
  have "dropWhile isspace s = []"
  proof (rule ccontr)
    assume "dropWhile isspace s \<noteq> []"
    then have "\<not> isspace (hd (dropWhile isspace s))"
      and "hd (dropWhile isspace s) \<in> set (dropWhile isspace s)"
      by (simp_all add: hd_dropWhile)
    with a show False by blast
  qed
  then show "\<forall>c\<in>set s. isspace c" by (simp add: dropWhile_eq_Nil_conv)
next
  assume "\<forall>c\<in>set s. isspace c"
  then have d: "dropWhile isspace s = []" by simp
  show "str_strip s = []" unfolding str_strip_def d by simp
qed

lemma blank_tokens:
  assumes "str_strip s = []"
  shows "filter (\<lambda>c. str_strip c \<noteq> []) (str_split s) = []"
proof -
  from assms have "\<forall>c\<in>set s. isspace c" by (simp add: str_strip_Nil_iff)
  then have "CHR '','' \<notin> set s" using isspace_not_comma by blast
  then have "str_split s = [s]" by (rule str_split_no_comma)
  with assms show ?thesis by simp
qed

text \<open>A field of commas and white space only has no token that survives trimming.\<close>

lemma separators_only:
  assumes "\<forall>c\<in>set s. isspace c \<or> c = CHR '',''"
  shows "get_countries_from_string (Some s) = []"
proof -
  have "str_strip t = []" if "t \<in> set (str_split s)" for t
  proof -
    have "\<forall>c\<in>set t. isspace c"
      using assms str_split_chars [OF that] str_split_tokens [OF that] by blast
    then show ?thesis by (simp add: str_strip_Nil_iff)
  qed
  then have "filter (\<lambda>c. str_strip c \<noteq> []) (str_split s) = []"
    by (simp add: filter_empty_conv)
  then show ?thesis by (simp add: get_countries_from_string_def)
qed

lemma get_countries_from_string_None: "get_countries_from_string None = []"
  by (simp add: get_countries_from_string_def)

text \<open>
  The tables beyond ASCII at work: \<^verbatim>\<open>"c\u00f4te".title()\<close> is \<^verbatim>\<open>"C\u00f4te"\<close>, since
  the letter 244 is cased; the sharp s, the micro sign and y with diaeresis at the start
  of a word become \<^verbatim>\<open>"Ss"\<close>, 924 and 376; \<^verbatim>\<open>strip()\<close> removes a no-break space
  and a next-line control.
\<close>

lemma str_title_latin1:
  "str_title [CHR ''c'', CHR 0xF4, CHR ''t'', CHR ''e''] = [67, 244, 116, 101]"
  "str_title [CHR 0xC9, CHR ''D'', CHR 0xC9, CHR ''N''] = [201, 100, 233, 110]"
  "str_title [CHR 0xDF, CHR ''A''] = [83, 115, 97]"
  "str_title [CHR 0xB5] = [924]"
  "str_title [CHR 0xFF] = [376]"
  by code_simp+

lemma str_strip_latin1:
  "str_strip [CHR 0xA0, CHR '' '', CHR ''a'', CHR 0xA0, CHR ''b'', CHR 0x85] = [CHR ''a'', CHR 0xA0, CHR ''b'']"
  by code_simp

text \<open>
  A country name is an output of \<^verbatim>\<open>title()\<close> on a token that is not empty: it is not
  empty and does not start with one of the small letters a to z, with which every
  column name starts that the script reads or writes.
\<close>

lemma to_title_initial:
  "to_title c \<noteq> [] \<and> \<not> (97 \<le> hd (to_title c) \<and> hd (to_title c) \<le> 122)"
proof -
  define n where "n = (of_char c :: nat)"
  have "to_title c =
     (if (97 \<le> n \<and> n \<le> 122) \<or> (224 \<le> n \<and> n \<le> 246) \<or> (248 \<le> n \<and> n \<le> 254)
         then [n - 32]
         else if n = 181 then [924]
         else if n = 223 then [83, 115]
         else if n = 255 then [376]
         else [n])"
    by (simp add: to_title_def n_def Let_def)
  then show ?thesis by (simp split: if_splits) arith+
qed

lemma str_title_initial:
  assumes "s \<noteq> []"
  shows "str_title s \<noteq> [] \<and> \<not> (97 \<le> hd (str_title s) \<and> hd (str_title s) \<le> 122)"
proof -
  from assms obtain c cs where s: "s = c # cs" by (cases s) auto
  have "str_title s = to_title c @ title_from (iscased c) cs"
    by (simp add: s str_title_def)
  then show ?thesis using to_title_initial [of c] by simp
qed

lemma country_name_initial:
  assumes "c \<in> set (get_countries_from_string x)"
  shows "c \<noteq> [] \<and> \<not> (97 \<le> hd c \<and> hd c \<le> 122)"
proof (cases x)
  case None
  with assms show ?thesis by (simp add: get_countries_from_string_None)
next
  case (Some s)
  with assms have "c \<in> (\<lambda>t. str_title (str_strip t)) ` {t \<in> set (str_split s). str_strip t \<noteq> []}"
    by (cases "str_strip s = []") (simp_all add: get_countries_from_string_def)
  then obtain t where t: "c = str_title (str_strip t)" "str_strip t \<noteq> []"
    by blast
  show ?thesis unfolding t(1) by (rule str_title_initial [OF t(2)])
qed

section \<open>The parser of the countries field\<close>

text \<open>Trimming every token and then discarding the empty ones keeps the tokens that
  are not empty after trimming.\<close>

lemma trim_then_discard:
  "map str_title (filter (\<lambda>t. t \<noteq> []) (map str_strip xs))
   = map (\<lambda>c. str_title (str_strip c)) (filter (\<lambda>c. str_strip c \<noteq> []) xs)"
  by (induction xs) simp_all

text \<open>
  Claim C4. Parsing a countries field splits the text on commas, trims each token,
  discards the tokens that are empty after trimming and title-cases the remaining ones;
  a blank or absent field gives the empty list. The function is total on cells, so no
  cell makes it raise.
\<close>

theorem get_countries_from_string_parses:
  "get_countries_from_string x = parse_countries_field x
   \<and> (blank_or_absent x \<longrightarrow> get_countries_from_string x = [])"
proof (cases x)
  case None
  then show ?thesis
    by (simp add: get_countries_from_string_def parse_countries_field_def)
next
  case (Some s)
  have shape: "map str_title (filter (\<lambda>t. t \<noteq> []) (map str_strip (str_split s)))
               = map (\<lambda>c. str_title (str_strip c)) (filter (\<lambda>c. str_strip c \<noteq> []) (str_split s))"
    by (rule trim_then_discard)
  show ?thesis
  proof (cases "str_strip s = []")
    case True
    then show ?thesis
      using Some shape blank_tokens [OF True]
      by (simp add: get_countries_from_string_def parse_countries_field_def)
  next
    case False
    have "\<not> blank_or_absent x"
      using Some False by (simp add: blank_or_absent_def str_strip_Nil_iff)
    moreover have "get_countries_from_string x = parse_countries_field x"
      using Some False shape
      by (simp add: get_countries_from_string_def parse_countries_field_def)
    ultimately show ?thesis by simp
  qed
qed

text \<open>The theorem at a blank field and at a field with empty tokens and mixed case.\<close>

theorem get_countries_from_string_parses_witness:
  "blank_or_absent (Some ''  '')
   \<and> get_countries_from_string (Some ''  '') = []
   \<and> get_countries_from_string (Some '' south korea ,,FRANCE, '') = [(ustr ''South Korea''), (ustr ''France'')]"
proof -
  have b: "blank_or_absent (Some ''  '')"
    by (simp add: blank_or_absent_def isspace_def)
  have p: "parse_countries_field (Some '' south korea ,,FRANCE, '') = [(ustr ''South Korea''), (ustr ''France'')]"
    by code_simp
  from b get_countries_from_string_parses [of "Some ''  ''"]
  have "get_countries_from_string (Some ''  '') = []" by blast
  moreover from p get_countries_from_string_parses [of "Some '' south korea ,,FRANCE, ''"]
  have "get_countries_from_string (Some '' south korea ,,FRANCE, '') = [(ustr ''South Korea''), (ustr ''France'')]"
    by simp
  ultimately show ?thesis using b by blast
qed

section \<open>The loaded frame\<close>

lemma set_set_update: "set (set_update s xs) = set s \<union> set xs"
  unfolding set_update_def by (induction xs arbitrary: s) auto

lemma distinct_set_update: "distinct s \<Longrightarrow> distinct (set_update s xs)"
  unfolding set_update_def by (induction xs arbitrary: s) auto

lemma set_fold_set_update:
  "set (fold (\<lambda>cell acc. set_update acc (g cell)) cells acc)
   = set acc \<union> (\<Union>cell\<in>set cells. set (g cell))"
  by (induction cells arbitrary: acc) (auto simp: set_set_update)

lemma distinct_fold_set_update:
  "distinct acc \<Longrightarrow> distinct (fold (\<lambda>cell acc. set_update acc (g cell)) cells acc)"
  by (induction cells arbitrary: acc) (auto simp: distinct_set_update)

text \<open>Dropping the missing cells loses no country: a missing cell parses to nothing.\<close>

lemma set_unique_countries:
  "set (unique_countries column) = (\<Union>cell\<in>set column. set (get_countries_from_string cell))"
proof -
  have "set (unique_countries column)
        = (\<Union>cell\<in>set (dropna column). set (get_countries_from_string cell))"
    by (simp add: unique_countries_def set_fold_set_update)
  also have "\<dots> = (\<Union>cell\<in>set column. set (get_countries_from_string cell))"
  proof -
    have "x \<in> set (get_countries_from_string cell) \<Longrightarrow> cell \<noteq> None" for x cell
      by (cases cell) (auto simp: get_countries_from_string_None)
    then show ?thesis by (auto simp: dropna_def)
  qed
  finally show ?thesis .
qed

lemma distinct_unique_countries: "distinct (unique_countries column)"
  by (simp add: unique_countries_def distinct_fold_set_update)

lemma load_data_Inr:
  assumes "load_data found = Inr (df, voc)"
  shows "\<exists>sh. found = Some sh \<and> has_countries sh
           \<and> voc = unique_countries (map countries (rows sh))
           \<and> country_names df = voc
           \<and> with_section df = has_section sh
           \<and> with_productoras df
               = (has_productoras_normalizadas sh \<or> has_productoras_consolidadas sh)
           \<and> map countries_for_analysis (drows df) = map countries (rows sh)
           \<and> map productoras_consolidadas_normalized (drows df)
               = map (producer_column sh) (rows sh)"
  using assms
  by (auto simp: load_data_def Let_def comp_def split: option.splits if_splits)

lemma load_data_row:
  assumes "load_data found = Inr (df, voc)" and "r \<in> set (drows df)"
  shows "country_flags r = country_columns voc (countries_for_analysis r)
         \<and> total_movies r = sum_list (map snd (country_flags r))
         \<and> countries r = countries_for_analysis r"
  using assms
  by (auto simp: load_data_def Let_def split: option.splits if_splits)

lemma load_data_frame_of:
  "load_data (Some sh) = Inr (df, voc) \<Longrightarrow> frame_of sh = df"
  by (simp add: frame_of_def)

lemma load_data_sheet_of:
  "load_data (Some (sheet_of rs)) = Inr (frame_of (sheet_of rs), country_names (frame_of (sheet_of rs)))"
  by (simp add: frame_of_def load_data_def sheet_of_def Let_def)

lemma set_filtered_df: "set (drows (filtered_df df f)) \<subseteq> set (drows df)"
  by (auto simp: filtered_df_def Let_def)

lemma country_names_filtered_df: "country_names (filtered_df df f) = country_names df"
  by (simp add: filtered_df_def Let_def)

lemma with_productoras_filtered_df: "with_productoras (filtered_df df f) = with_productoras df"
  by (simp add: filtered_df_def Let_def)

section \<open>The vocabulary of countries\<close>

text \<open>
  Claim C5. The vocabulary that \<^verbatim>\<open>load_data\<close> builds is the union of the parsed
  country sets of all records of the file: every country of the vocabulary is in the
  parsed set of some record, and every country of a parsed set is in the vocabulary.
  The vocabulary names each country once, and its countries are the country columns of
  the frame.
\<close>

theorem vocabulary_is_union:
  assumes "load_data (Some sh) = Inr (df, vocabulary)"
  shows "set vocabulary = (\<Union>r\<in>set (rows sh). set (get_countries_from_string (countries r)))
         \<and> distinct vocabulary
         \<and> country_names df = vocabulary"
proof -
  from load_data_Inr [OF assms]
  have v: "vocabulary = unique_countries (map countries (rows sh))"
    and n: "country_names df = vocabulary"
    by auto
  have "set vocabulary = (\<Union>r\<in>set (rows sh). set (get_countries_from_string (countries r)))"
    unfolding v set_unique_countries by simp
  moreover have "distinct vocabulary"
    unfolding v by (rule distinct_unique_countries)
  ultimately show ?thesis using n by blast
qed

text \<open>The theorem at the example of the specification: the vocabulary is France and Usa.\<close>

theorem vocabulary_is_union_witness:
  "load_data (Some spec_example) = Inr (frame_of spec_example, [(ustr ''France''), (ustr ''Usa'')])
   \<and> set [(ustr ''France''), (ustr ''Usa'')]
       = (\<Union>r\<in>set (rows spec_example). set (get_countries_from_string (countries r)))
   \<and> country_names (frame_of spec_example) = [(ustr ''France''), (ustr ''Usa'')]"
proof -
  have l: "load_data (Some spec_example) = Inr (frame_of spec_example, [(ustr ''France''), (ustr ''Usa'')])"
    by code_simp
  from vocabulary_is_union [OF l] l show ?thesis by blast
qed

section \<open>The counts of countries of one record\<close>

lemma sum_list_indicator:
  "distinct xs \<Longrightarrow> sum_list (map (\<lambda>c. if c \<in> S then 1 else 0) xs) = int (card (set xs \<inter> S))"
proof (induction xs)
  case Nil
  then show ?case by simp
next
  case (Cons x xs)
  have fin: "finite (set xs \<inter> S)" by simp
  show ?case
  proof (cases "x \<in> S")
    case True
    then have "set (x # xs) \<inter> S = insert x (set xs \<inter> S)" by auto
    moreover have "x \<notin> set xs \<inter> S" using Cons.prems by simp
    ultimately show ?thesis using Cons True fin by simp
  next
    case False
    then have "set (x # xs) \<inter> S = set xs \<inter> S" by auto
    then show ?thesis using Cons False by simp
  qed
qed

text \<open>
  The flags of a record are summed over the whole vocabulary, which holds every country
  of the record, each once: the sum is the number of distinct countries of the record.
\<close>

lemma total_movies_card:
  assumes "load_data found = Inr (df, voc)" and "r \<in> set (drows df)"
  shows "total_movies r = int (card (set (get_countries_from_string (countries_for_analysis r))))"
proof -
  let ?S = "set (get_countries_from_string (countries_for_analysis r))"
  from load_data_Inr [OF assms(1)] obtain sh :: sheet where
    f: "voc = unique_countries (map countries (rows sh))"
       "map countries_for_analysis (drows df) = map countries (rows sh)"
    by auto
  have "countries_for_analysis r \<in> set (map countries (rows sh))"
    using assms(2) f(2) by (metis image_eqI list.set_map)
  then have sub: "?S \<subseteq> set voc"
    unfolding f(1) set_unique_countries by blast
  have "total_movies r = sum_list (map (\<lambda>c. if c \<in> ?S then 1 else 0) voc)"
    using load_data_row [OF assms] by (simp add: country_columns_def comp_def)
  also have "\<dots> = int (card (set voc \<inter> ?S))"
    using f(1) by (simp add: sum_list_indicator distinct_unique_countries)
  also have "set voc \<inter> ?S = ?S" using sub by blast
  finally show ?thesis .
qed

lemma num_countries_length:
  "num_countries r = int (length (get_countries_from_string (countries_for_analysis r)))"
  by (simp add: num_countries_def get_countries_from_string_None split: option.splits)

text \<open>
  Claim C2. For every record, the total count of countries is the size of the set of its
  distinct normalized country names: a country that the field names twice counts once,
  in every per-record count that the program derives. The program derives two such
  counts. The column \<^verbatim>\<open>total_movies\<close> of the loader sums the flags and is that size
  (lemma \<open>total_movies_card\<close>). The column \<^verbatim>\<open>num_countries\<close>, which the script
  introduces as the number of countries involved in a film, is the length of the
  parsed list, which keeps a repeated country. For the record \<^verbatim>\<open>"France, France"\<close>
  of 2021, in a file with another record of 2020, the set has one country and
  \<^verbatim>\<open>total_movies\<close> is 1, as the claim says, and \<^verbatim>\<open>num_countries\<close> is 2.
\<close>

theorem num_countries_counts_duplicates:
  "map total_movies
     (drows (filtered_df
        (frame_of (sheet_of [entry 2020 (Some ''France''), entry 2021 (Some ''France, France'')]))
        (all_years 2020 2021))) = [1, 1]
   \<and> map num_countries
     (drows (filtered_df
        (frame_of (sheet_of [entry 2020 (Some ''France''), entry 2021 (Some ''France, France'')]))
        (all_years 2020 2021))) = [1, 2]
   \<and> card (set (get_countries_from_string (Some ''France, France''))) = 1"
  by code_simp

section \<open>The geographic ranking\<close>

lemma counter_get_counter_add:
  "counter_get (counter_add x kvs) k = counter_get kvs k + (if k = x then 1 else 0)"
  by (induction x kvs rule: counter_add.induct) (auto simp: counter_get_def)

lemma counter_get_fold:
  "counter_get (fold counter_add xs acc) k = counter_get acc k + count_list xs k"
  by (induction xs arbitrary: acc) (auto simp: counter_get_counter_add)

lemma counter_get_Counter: "counter_get (Counter xs) k = count_list xs k"
  using counter_get_fold [of xs "[]" k] by (simp add: Counter_def counter_get_def)

lemma keys_counter_add: "fst ` set (counter_add x kvs) = insert x (fst ` set kvs)"
  by (induction x kvs rule: counter_add.induct) auto

lemma distinct_counter_add:
  "distinct (map fst kvs) \<Longrightarrow> distinct (map fst (counter_add x kvs))"
proof (induction x kvs rule: counter_add.induct)
  case (1 x)
  then show ?case by simp
next
  case (2 x k n kvs)
  then show ?case
    using keys_counter_add [of x kvs] by auto
qed

lemma keys_fold_counter_add:
  "fst ` set (fold counter_add xs acc) = set xs \<union> fst ` set acc"
  by (induction xs arbitrary: acc) (auto simp: keys_counter_add)

lemma distinct_fold_counter_add:
  "distinct (map fst acc) \<Longrightarrow> distinct (map fst (fold counter_add xs acc))"
  by (induction xs arbitrary: acc) (auto simp: distinct_counter_add)

lemma keys_Counter: "fst ` set (Counter xs) = set xs"
  by (simp add: Counter_def keys_fold_counter_add)

lemma distinct_Counter: "distinct (map fst (Counter xs))"
  by (simp add: Counter_def distinct_fold_counter_add)

text \<open>A counter holds one entry for each element counted, with its number of occurrences.\<close>

lemma Counter_entry: "(k, n) \<in> set (Counter xs) \<longleftrightarrow> n = count_list xs k \<and> 0 < n"
proof
  assume e: "(k, n) \<in> set (Counter xs)"
  then have "map_of (Counter xs) k = Some n"
    using distinct_Counter [of xs] by simp
  then have "counter_get (Counter xs) k = n" by (simp add: counter_get_def)
  then have n: "n = count_list xs k" by (simp add: counter_get_Counter)
  from e have "k \<in> fst ` set (Counter xs)" by force
  then have "k \<in> set xs" by (simp add: keys_Counter)
  then have "count_list xs k \<noteq> 0" by (simp add: count_list_0_iff)
  with n show "n = count_list xs k \<and> 0 < n" by simp
next
  assume a: "n = count_list xs k \<and> 0 < n"
  then have "k \<in> set xs" using count_list_0_iff [of xs k] by auto
  then have "k \<in> fst ` set (Counter xs)" by (simp add: keys_Counter)
  then obtain m where m: "(k, m) \<in> set (Counter xs)" by force
  then have "map_of (Counter xs) k = Some m"
    using distinct_Counter [of xs] by simp
  then have "counter_get (Counter xs) k = m" by (simp add: counter_get_def)
  then have "m = n" using a by (simp add: counter_get_Counter)
  with m show "(k, n) \<in> set (Counter xs)" by simp
qed

lemma set_sort_descending: "set (sort_descending kvs) = set kvs"
  by (simp add: sort_descending_def)

lemma distinct_keys_sort_descending:
  "distinct (map fst kvs) \<Longrightarrow> distinct (map fst (sort_descending kvs))"
  by (simp add: sort_descending_def distinct_map)

lemma counter_get_sort_descending:
  assumes "distinct (map fst kvs)"
  shows "counter_get (sort_descending kvs) k = counter_get kvs k"
proof -
  have "map_of (sort_descending kvs) = map_of kvs"
    using assms distinct_keys_sort_descending [OF assms] set_sort_descending [of kvs]
    by (simp add: map_of_inject_set)
  then show ?thesis by (simp add: counter_get_def)
qed

lemma sorted_sort_descending: "sorted_wrt (\<lambda>a b. snd b \<le> snd a) (sort_descending kvs)"
proof -
  have "sorted (map (\<lambda>kv. - int (snd kv)) (sort_descending kvs))"
    unfolding sort_descending_def by (rule sorted_sort_key)
  then show ?thesis by (simp add: sorted_map)
qed

lemma all_countries_count:
  "count_list (concat (map get_countries_from_string (dropna column))) country
   = sum_list (map (\<lambda>cell. count_list (get_countries_from_string cell) country) column)"
proof -
  have "sum_list (map (\<lambda>cell. count_list (get_countries_from_string cell) country) (dropna column))
        = sum_list (map (\<lambda>cell. count_list (get_countries_from_string cell) country) column)"
    unfolding dropna_def
    by (induction column) (auto simp: get_countries_from_string_None)
  then show ?thesis
    by (simp add: count_list_concat comp_def)
qed

lemma country_counts_Counter:
  "country_counts fdf
   = Counter (concat (map get_countries_from_string (dropna (map countries_for_analysis (drows fdf)))))"
  by (simp add: country_counts_def count_countries_def)

lemma all_countries_occurrences:
  "count_list (concat (map get_countries_from_string (dropna (map countries_for_analysis (drows fdf)))))
     country
   = occurrences fdf country"
  by (simp add: all_countries_count occurrences_def comp_def)

text \<open>On a loaded frame the flag of a country column says whether the record names the
  country.\<close>

lemma flag_loaded:
  assumes "load_data found = Inr (df, voc)" and "r \<in> set (drows df)" and "country \<in> set voc"
  shows "flag r country
         = (if country \<in> set (get_countries_from_string (countries_for_analysis r)) then 1 else 0)"
proof -
  have "country_flags r = country_columns voc (countries_for_analysis r)"
    using load_data_row [OF assms(1,2)] by simp
  then show ?thesis
    using assms(3)
    by (simp add: flag_def country_columns_def map_of_map_restrict)
qed

lemma indicator_le_count_list: "(if x \<in> set xs then 1 else 0) \<le> int (count_list xs x)"
  using count_list_0_iff [of xs x] by (cases "count_list xs x") auto

lemma distinct_count_list: "distinct xs \<Longrightarrow> int (count_list xs x) = (if x \<in> set xs then 1 else 0)"
  by (induction xs) auto

lemma sum_list_int: "int (sum_list (map f xs)) = sum_list (map (\<lambda>x. int (f x)) xs)"
  by (induction xs) auto

text \<open>
  Claim C3. For every country of the vocabulary, the count of the geographic aggregator
  is the sum of the membership flag of the country over the filtered records; the
  ranking is sorted by count, descending, and the bar chart shows its first 15 rows.
  The script introduces the count as the total of films per country, but
  \<^verbatim>\<open>count_countries\<close> does not read the flags: it parses the fields again and counts
  every token. For the record \<^verbatim>\<open>"France, France"\<close> of 2021, in a file with a record
  \<^verbatim>\<open>"Italy"\<close> of 2020, the flags of France sum to 1, the one film of France, and the
  aggregator counts 2 films for France.
\<close>

theorem country_counts_counts_tokens:
  "country_names
     (frame_of (sheet_of [entry 2020 (Some ''Italy''), entry 2021 (Some ''France, France'')]))
     = [(ustr ''Italy''), (ustr ''France'')]
   \<and> flag_total
       (filtered_df
          (frame_of (sheet_of [entry 2020 (Some ''Italy''), entry 2021 (Some ''France, France'')]))
          (all_years 2020 2021)) (ustr ''France'') = 1
   \<and> counter_get
       (country_counts (filtered_df
          (frame_of (sheet_of [entry 2020 (Some ''Italy''), entry 2021 (Some ''France, France'')]))
          (all_years 2020 2021))) (ustr ''France'') = 2
   \<and> df_counts
       (filtered_df
          (frame_of (sheet_of [entry 2020 (Some ''Italy''), entry 2021 (Some ''France, France'')]))
          (all_years 2020 2021)) = [((ustr ''France''), 2), ((ustr ''Italy''), 1)]
   \<and> fig_bars
       (filtered_df
          (frame_of (sheet_of [entry 2020 (Some ''Italy''), entry 2021 (Some ''France, France'')]))
          (all_years 2020 2021)) = [((ustr ''France''), 2), ((ustr ''Italy''), 1)]"
  by code_simp

section \<open>The filter layer\<close>

lemma drows_filtered_df: "drows (filtered_df df f) = filter (passes_filter df f) (drows df)"
proof (cases "with_section df \<and> selected_section df f \<noteq> ''Todas''")
  case True
  then show ?thesis
    by (auto simp: filtered_df_def Let_def passes_filter_def intro!: filter_cong)
next
  case False
  then have "selected_section df f = ''Todas''"
    by (auto simp: selected_section_def)
  then show ?thesis
    using False by (auto simp: filtered_df_def Let_def passes_filter_def intro!: filter_cong)
qed

lemma df_line_years:
  assumes "set selected \<subseteq> set (country_names fdf)"
  shows "df_line fdf selected
         = Inr (map (\<lambda>y. (y, map (\<lambda>country. (country, year_count fdf y country)) selected))
                  (sort (remdups (map year (drows fdf)))))"
  using assms by (simp add: df_line_def groupby_year_def year_count_def comp_def)

text \<open>
  Claim C6. The filter layer returns exactly the records whose year lies in the range
  and whose section is the selected one, every section passing when the selection is
  the sentinel \<^verbatim>\<open>"Todas"\<close>. The selected countries remove no record: the filtered frame
  is the same for every selection of countries and keeps all country columns. The
  selection only names the columns that the aggregation over years sums: its table has
  one line per year of the filtered frame, and the cells of a line are those of the
  selected countries.
\<close>

theorem filter_layer:
  "drows (filtered_df df f) = filter (passes_filter df f) (drows df)
   \<and> filtered_df df (f\<lparr>selected_countries := cs\<rparr>) = filtered_df df f
   \<and> country_names (filtered_df df f) = country_names df
   \<and> (set cs \<subseteq> set (country_names df) \<longrightarrow>
        (\<exists>line. df_line (filtered_df df f) cs = Inr line
           \<and> map fst line = sort (remdups (map year (drows (filtered_df df f))))
           \<and> (\<forall>l\<in>set line. map fst (snd l) = cs)))"
proof -
  have a: "drows (filtered_df df f) = filter (passes_filter df f) (drows df)"
    by (rule drows_filtered_df)
  have b: "filtered_df df (f\<lparr>selected_countries := cs\<rparr>) = filtered_df df f"
    by (simp add: filtered_df_def selected_section_def Let_def)
  have c: "country_names (filtered_df df f) = country_names df"
    by (rule country_names_filtered_df)
  have d: "\<exists>line. df_line (filtered_df df f) cs = Inr line
           \<and> map fst line = sort (remdups (map year (drows (filtered_df df f))))
           \<and> (\<forall>l\<in>set line. map fst (snd l) = cs)"
    if "set cs \<subseteq> set (country_names df)"
  proof -
    have "set cs \<subseteq> set (country_names (filtered_df df f))"
      using that by (simp add: country_names_filtered_df)
    from df_line_years [OF this] show ?thesis
      by (auto simp: comp_def)
  qed
  from a b c d show ?thesis by blast
qed

text \<open>
  The theorem at a file of four entries in three years and two sections: the years
  2020 to 2021 of the section Competition leave one record, whatever countries are
  selected, and the line of 2020 has the one cell of the selected country.
\<close>

theorem filter_layer_witness:
  "set [(ustr ''France'')] \<subseteq> set (country_names (frame_of (sheet_of
      [(entry 2019 (Some ''France''))\<lparr>section_name := Some ''Competition''\<rparr>,
       (entry 2020 (Some ''Italy''))\<lparr>section_name := Some ''Un Certain Regard''\<rparr>,
       (entry 2020 (Some ''France, Italy''))\<lparr>section_name := Some ''Competition''\<rparr>,
       entry 2021 (Some ''France'')])))
   \<and> map countries (drows (filtered_df (frame_of (sheet_of
      [(entry 2019 (Some ''France''))\<lparr>section_name := Some ''Competition''\<rparr>,
       (entry 2020 (Some ''Italy''))\<lparr>section_name := Some ''Un Certain Regard''\<rparr>,
       (entry 2020 (Some ''France, Italy''))\<lparr>section_name := Some ''Competition''\<rparr>,
       entry 2021 (Some ''France'')]))
      \<lparr>year_range = (2020, 2021), selected_countries = [(ustr ''France'')],
        section_choice = ''Competition''\<rparr>)) = [Some ''France, Italy'']
   \<and> (\<exists>line. df_line (filtered_df (frame_of (sheet_of
      [(entry 2019 (Some ''France''))\<lparr>section_name := Some ''Competition''\<rparr>,
       (entry 2020 (Some ''Italy''))\<lparr>section_name := Some ''Un Certain Regard''\<rparr>,
       (entry 2020 (Some ''France, Italy''))\<lparr>section_name := Some ''Competition''\<rparr>,
       entry 2021 (Some ''France'')]))
      \<lparr>year_range = (2020, 2021), selected_countries = [(ustr ''France'')],
        section_choice = ''Competition''\<rparr>) [(ustr ''France'')] = Inr line
        \<and> map fst line = [2020])"
proof -
  let ?df = "frame_of (sheet_of
      [(entry 2019 (Some ''France''))\<lparr>section_name := Some ''Competition''\<rparr>,
       (entry 2020 (Some ''Italy''))\<lparr>section_name := Some ''Un Certain Regard''\<rparr>,
       (entry 2020 (Some ''France, Italy''))\<lparr>section_name := Some ''Competition''\<rparr>,
       entry 2021 (Some ''France'')])"
  let ?f = "\<lparr>year_range = (2020, 2021), selected_countries = [(ustr ''France'')],
             section_choice = ''Competition''\<rparr>"
  have s: "set [(ustr ''France'')] \<subseteq> set (country_names ?df)"
    by code_simp
  have p: "map countries (filter (passes_filter ?df ?f) (drows ?df)) = [Some ''France, Italy'']"
    by code_simp
  have y: "sort (remdups (map year (filter (passes_filter ?df ?f) (drows ?df)))) = [2020]"
    by code_simp
  note t = filter_layer [of ?df ?f "[(ustr ''France'')]"]
  from t p have "map countries (drows (filtered_df ?df ?f)) = [Some ''France, Italy'']"
    by simp
  moreover from t s y have "\<exists>line. df_line (filtered_df ?df ?f) [(ustr ''France'')] = Inr line
        \<and> map fst line = [2020]"
    by auto
  ultimately show ?thesis using s by blast
qed

section \<open>The shares of the countries per year\<close>

lemma sum_list_exact_share:
  "sum_list (map (exact_share fdf selected y) xs)
   = of_int (sum_list (map (year_count fdf y) xs)) / of_int (year_total fdf selected y) * 100"
  by (induction xs) (simp_all add: exact_share_def add_divide_distrib distrib_right)

lemma df_percent_years:
  "df_percent rnd (map (\<lambda>y. (y, map (\<lambda>country. (country, year_count fdf y country)) selected)) ys)
   = map (\<lambda>y. (y, map (\<lambda>country.
                     (country, times rnd (true_div rnd (year_count fdf y country)
                                            (year_total fdf selected y)) 100))
                   selected)) ys"
  by (simp add: df_percent_def year_total_def comp_def Let_def)

lemma sum_exact_share:
  assumes "year_total fdf selected y \<noteq> 0"
  shows "sum_list (map (exact_share fdf selected y) selected) = 100"
proof -
  let ?t = "year_total fdf selected y"
  have "sum_list (map (exact_share fdf selected y) selected) = of_int ?t / of_int ?t * 100"
    unfolding sum_list_exact_share by (simp add: year_total_def)
  also have "\<dots> = 100" using assms by simp
  finally show ?thesis .
qed

text \<open>The flags of a loaded frame are 0 or 1, so no count of a year is negative.\<close>

lemma year_count_nonneg:
  assumes "load_data found = Inr (df, voc)" and "country \<in> set voc"
  shows "0 \<le> year_count (filtered_df df f) y country"
proof -
  have "0 \<le> flag r country" if "r \<in> set (drows (filtered_df df f))" for r
  proof -
    from that have "r \<in> set (drows df)" using set_filtered_df by blast
    from flag_loaded [OF assms(1) this assms(2)] show ?thesis by simp
  qed
  then show ?thesis
    unfolding year_count_def by (intro sum_list_nonneg) auto
qed

lemma abs_diff_via:
  fixes a b c :: rat
  shows "\<bar>a - c\<bar> \<le> \<bar>a - b\<bar> + \<bar>b - c\<bar>"
  by arith

text \<open>
  Two roundings in a row, of a quotient that is not negative and of its product with
  100, stay within the relative error \<open>2 * u + u * u\<close> of the exact share.
\<close>

lemma rounded_share_error:
  fixes q u :: rat
  assumes rnd: "\<forall>x. \<bar>rnd x - x\<bar> \<le> u * \<bar>x\<bar>" and q: "0 \<le> q"
  shows "\<bar>rnd (rnd q * 100) - q * 100\<bar> \<le> (2 * u + u * u) * (q * 100)"
proof -
  have u: "0 \<le> u" using rnd [rule_format, of 1] by simp
  have a: "\<bar>rnd q - q\<bar> \<le> u * q" using rnd [rule_format, of q] q by simp
  then have a': "\<bar>rnd q\<bar> \<le> (1 + u) * q"
    using q by (auto simp: algebra_simps abs_le_iff)
  have "\<bar>rnd (rnd q * 100) - rnd q * 100\<bar> \<le> u * \<bar>rnd q * 100\<bar>"
    using rnd [rule_format, of "rnd q * 100"] .
  also have "\<dots> = u * (\<bar>rnd q\<bar> * 100)" by (simp add: abs_mult)
  also have "\<dots> \<le> u * ((1 + u) * q * 100)"
    using a' u by (intro mult_left_mono) auto
  finally have b: "\<bar>rnd (rnd q * 100) - rnd q * 100\<bar> \<le> u * ((1 + u) * q * 100)" .
  have "rnd q * 100 - q * 100 = (rnd q - q) * 100"
    by (simp add: algebra_simps)
  then have c: "\<bar>rnd q * 100 - q * 100\<bar> = \<bar>rnd q - q\<bar> * 100"
    by (metis abs_mult abs_numeral)
  have "\<bar>rnd (rnd q * 100) - q * 100\<bar>
        \<le> \<bar>rnd (rnd q * 100) - rnd q * 100\<bar> + \<bar>rnd q * 100 - q * 100\<bar>"
    by (rule abs_diff_via)
  also have "\<dots> = \<bar>rnd (rnd q * 100) - rnd q * 100\<bar> + \<bar>rnd q - q\<bar> * 100"
    by (simp only: c)
  also have "\<dots> \<le> u * ((1 + u) * q * 100) + u * q * 100"
    using a b by simp
  also have "\<dots> = (2 * u + u * u) * (q * 100)" by (simp add: algebra_simps)
  finally show ?thesis .
qed

lemma sum_list_error:
  fixes f g :: "'a \<Rightarrow> rat"
  assumes "\<forall>x\<in>set xs. \<bar>f x - g x\<bar> \<le> k * g x"
  shows "\<bar>sum_list (map f xs) - sum_list (map g xs)\<bar> \<le> k * sum_list (map g xs)"
  using assms
proof (induction xs)
  case Nil
  then show ?case by simp
next
  case (Cons x xs)
  then have "\<bar>f x - g x\<bar> \<le> k * g x"
    and "\<bar>sum_list (map f xs) - sum_list (map g xs)\<bar> \<le> k * sum_list (map g xs)"
    by simp_all
  then show ?case by (simp add: algebra_simps abs_le_iff)
qed

text \<open>
  Claim C7. In the percentage table of the first tab, for any year of the filtered frame
  whose selected countries have a total count other than zero, the share of each
  selected country is its sum of flags in that year divided by the row total of the
  year, times 100, each of the two operations rounding its result. The exact shares of
  the year sum to 100, and with a rounding of relative error at most \<open>u\<close> the computed
  shares sum to 100 within the tolerance \<open>100 * (2 * u + u * u)\<close>, about
  \<^verbatim>\<open>2.2e-14\<close> for float64.
\<close>

theorem percentages_sum_to_100:
  assumes "load_data found = Inr (df, vocabulary)"
    and "set selected \<subseteq> set vocabulary"
    and "y \<in> year ` set (drows (filtered_df df f))"
    and "year_total (filtered_df df f) selected y \<noteq> 0"
    and "\<forall>x. \<bar>rnd x - x\<bar> \<le> u * \<bar>x\<bar>"
  shows "\<exists>line. df_line (filtered_df df f) selected = Inr line
           \<and> map_of (df_percent rnd line) y
               = Some (map (\<lambda>country.
                         (country, Finite (float_share rnd (filtered_df df f) selected y country)))
                       selected)
           \<and> sum_list (map (exact_share (filtered_df df f) selected y) selected) = 100
           \<and> \<bar>sum_list (map (float_share rnd (filtered_df df f) selected y) selected) - 100\<bar>
               \<le> 100 * (2 * u + u * u)"
proof -
  let ?fdf = "filtered_df df f"
  let ?ys = "sort (remdups (map year (drows ?fdf)))"
  let ?line = "map (\<lambda>y. (y, map (\<lambda>country. (country, year_count ?fdf y country)) selected)) ?ys"
  let ?t = "year_total ?fdf selected y"
  have names: "country_names ?fdf = vocabulary"
    using load_data_Inr [OF assms(1)] by (auto simp: country_names_filtered_df)
  have l: "df_line ?fdf selected = Inr ?line"
    using assms(2) names by (intro df_line_years) simp
  have y: "y \<in> set ?ys" using assms(3) by simp
  have "map_of (df_percent rnd ?line) y
        = Some (map (\<lambda>country.
                  (country, times rnd (true_div rnd (year_count ?fdf y country) ?t) 100)) selected)"
    unfolding df_percent_years using y by (simp add: map_of_map_restrict)
  also have "(\<lambda>country. (country, times rnd (true_div rnd (year_count ?fdf y country) ?t) 100))
             = (\<lambda>country. (country, Finite (float_share rnd ?fdf selected y country)))"
    using assms(4) by (simp add: true_div_def float_share_def)
  finally have p: "map_of (df_percent rnd ?line) y
        = Some (map (\<lambda>country. (country, Finite (float_share rnd ?fdf selected y country))) selected)" .
  have e: "sum_list (map (exact_share ?fdf selected y) selected) = 100"
    by (rule sum_exact_share [OF assms(4)])
  have total: "0 < ?t"
  proof -
    have "0 \<le> ?t"
      unfolding year_total_def
      using year_count_nonneg [OF assms(1)] assms(2) by (intro sum_list_nonneg) auto
    with assms(4) show ?thesis by simp
  qed
  have each: "\<bar>float_share rnd ?fdf selected y country - exact_share ?fdf selected y country\<bar>
              \<le> (2 * u + u * u) * exact_share ?fdf selected y country"
    if "country \<in> set selected" for country
  proof -
    have "0 \<le> year_count ?fdf y country"
      using year_count_nonneg [OF assms(1)] that assms(2) by blast
    then have "(0::rat) \<le> of_int (year_count ?fdf y country) / of_int ?t"
      using total by simp
    from rounded_share_error [OF assms(5) this] show ?thesis
      by (simp add: float_share_def exact_share_def)
  qed
  have "\<bar>sum_list (map (float_share rnd ?fdf selected y) selected)
          - sum_list (map (exact_share ?fdf selected y) selected)\<bar>
        \<le> (2 * u + u * u) * sum_list (map (exact_share ?fdf selected y) selected)"
    using each by (intro sum_list_error) blast
  then have b: "\<bar>sum_list (map (float_share rnd ?fdf selected y) selected) - 100\<bar>
                \<le> 100 * (2 * u + u * u)"
    unfolding e by (simp add: mult.commute)
  from l p e b show ?thesis by blast
qed

text \<open>
  The theorem at the example of the specification, for France and Usa in 2020, with a
  rounding that makes every result larger by one thousandth: the row total is 3, the
  computed shares are the exact 200/3 and 100/3 (the 66.7 and 33.3 of the
  specification) times 1.001 twice, and their sum 100.2001 is at the bound of the
  tolerance.
\<close>

theorem percentages_sum_to_100_witness:
  "set [(ustr ''France''), (ustr ''Usa'')] \<subseteq> set (country_names (frame_of spec_example))
   \<and> year_total (filtered_df (frame_of spec_example) (all_years 2020 2021)) [(ustr ''France''), (ustr ''Usa'')] 2020 = 3
   \<and> map (exact_share (filtered_df (frame_of spec_example) (all_years 2020 2021))
            [(ustr ''France''), (ustr ''Usa'')] 2020) [(ustr ''France''), (ustr ''Usa'')] = [200 / 3, 100 / 3]
   \<and> \<bar>sum_list (map (float_share (\<lambda>x. x * (1001 / 1000))
                      (filtered_df (frame_of spec_example) (all_years 2020 2021))
                      [(ustr ''France''), (ustr ''Usa'')] 2020) [(ustr ''France''), (ustr ''Usa'')]) - 100\<bar>
       \<le> 100 * (2 * (1 / 1000) + (1 / 1000) * (1 / 1000))
   \<and> sum_list (map (float_share (\<lambda>x. x * (1001 / 1000))
                      (filtered_df (frame_of spec_example) (all_years 2020 2021))
                      [(ustr ''France''), (ustr ''Usa'')] 2020) [(ustr ''France''), (ustr ''Usa'')]) = 1002001 / 10000"
proof -
  let ?fdf = "filtered_df (frame_of spec_example) (all_years 2020 2021)"
  let ?rnd = "\<lambda>x::rat. x * (1001 / 1000)"
  have l: "load_data (Some spec_example)
           = Inr (frame_of spec_example, country_names (frame_of spec_example))"
    unfolding spec_example_def by (rule load_data_sheet_of)
  have s: "set [(ustr ''France''), (ustr ''Usa'')] \<subseteq> set (country_names (frame_of spec_example))"
    by code_simp
  have y: "2020 \<in> year ` set (drows ?fdf)"
    by code_simp
  have t: "year_total ?fdf [(ustr ''France''), (ustr ''Usa'')] 2020 = 3"
    by code_simp
  then have z: "year_total ?fdf [(ustr ''France''), (ustr ''Usa'')] 2020 \<noteq> 0"
    by simp
  have r: "\<forall>x. \<bar>?rnd x - x\<bar> \<le> (1 / 1000) * \<bar>x\<bar>"
  proof
    fix x :: rat
    have "?rnd x - x = x * (1 / 1000)" by (simp add: algebra_simps)
    then show "\<bar>?rnd x - x\<bar> \<le> (1 / 1000) * \<bar>x\<bar>" by (simp add: abs_mult)
  qed
  have e: "map (exact_share ?fdf [(ustr ''France''), (ustr ''Usa'')] 2020) [(ustr ''France''), (ustr ''Usa'')] = [200 / 3, 100 / 3]"
    by code_simp
  have v: "sum_list (map (float_share ?rnd ?fdf [(ustr ''France''), (ustr ''Usa'')] 2020) [(ustr ''France''), (ustr ''Usa'')])
           = 1002001 / 10000"
    by code_simp
  from percentages_sum_to_100 [OF l s y z r]
  have "\<bar>sum_list (map (float_share ?rnd ?fdf [(ustr ''France''), (ustr ''Usa'')] 2020) [(ustr ''France''), (ustr ''Usa'')]) - 100\<bar>
        \<le> 100 * (2 * (1 / 1000) + (1 / 1000) * (1 / 1000))"
    by blast
  with s t e v show ?thesis by blast
qed

section \<open>The mean number of countries per year\<close>

lemma map_of_group_means:
  "y \<in> year ` set rs \<Longrightarrow>
   map_of (map (\<lambda>(y, group). (y, mean rnd (map num_countries group))) (groupby_year rs)) y
   = Some (mean rnd (map num_countries (filter (\<lambda>r. year r = y) rs)))"
  by (simp add: groupby_year_def comp_def map_of_map_restrict)

lemma group_means_split:
  "map (\<lambda>(y, group). (y, mean rnd (map num_countries group))) gs
   = map (\<lambda>(y, ns). (y, mean rnd ns)) (map (\<lambda>(y, group). (y, map num_countries group)) gs)"
  by (simp add: comp_def case_prod_unfold)

text \<open>A record that counts zero countries leaves the sum of its group as it is and adds
  one to the number of records that the sum is divided by.\<close>

lemma mean_with_zero:
  assumes "r \<in> set g" and "num_countries r = 0"
  shows "mean rnd (map num_countries g)
         = Finite (rnd (of_int (sum_list (map num_countries (remove1 r g)))
                        / of_nat (length (remove1 r g) + 1)))"
proof -
  have "sum_list (map num_countries g) = sum_list (map num_countries (remove1 r g))"
    using sum_list_map_remove1 [OF assms(1), of num_countries] assms(2) by simp
  moreover have "length g = length (remove1 r g) + 1"
  proof -
    have "0 < length g" using assms(1) by (cases g) auto
    then show ?thesis using assms(1) by (simp add: length_remove1)
  qed
  moreover have "g \<noteq> []" using assms(1) by auto
  ultimately show ?thesis by (simp add: mean_def)
qed

text \<open>The chart of the mean is drawn from the second binding, the mean over all records.\<close>

lemma fig_avg_all: "fig_avg rnd fdf = avg_countries_all rnd fdf"
  by (simp add: fig_avg_def)

text \<open>
  Claim C1. The claim is that the mean per year of the number of countries is taken
  over the records that have a country only, a record with a blank or absent countries
  field adding nothing to the sum and nothing to the number of records. The script
  computes that mean first, under a comment that says so, and then binds the name
  \<^verbatim>\<open>avg_countries\<close> again to the mean over all filtered records, from which the chart
  is drawn. For three records of 2021 whose countries fields are absent, empty and
  \<^verbatim>\<open>"France"\<close>, the first binding divides 1 country by 1 record, the mean that the
  claim describes, and the chart shows 1 country divided by 3 records: the two records
  without a country are counted as zeros. The same holds for 2021 when the file has a
  record of another year, 2020, as well.
\<close>

theorem fig_avg_counts_records_without_countries:
  "map has_country_data
     (drows (filtered_df
        (frame_of (sheet_of [entry 2021 None, entry 2021 (Some ''''), entry 2021 (Some ''France'')]))
        (all_years 2021 2021))) = [False, False, True]
   \<and> avg_countries_with_data rnd
       (filtered_df
          (frame_of (sheet_of [entry 2021 None, entry 2021 (Some ''''), entry 2021 (Some ''France'')]))
          (all_years 2021 2021)) = [(2021, Finite (rnd (1 / 1)))]
   \<and> fig_avg rnd
       (filtered_df
          (frame_of (sheet_of [entry 2021 None, entry 2021 (Some ''''), entry 2021 (Some ''France'')]))
          (all_years 2021 2021)) = [(2021, Finite (rnd (1 / 3)))]
   \<and> avg_countries_with_data rnd
       (filtered_df
          (frame_of (sheet_of [entry 2020 (Some ''Italy''), entry 2021 None, entry 2021 (Some ''''),
                               entry 2021 (Some ''France'')]))
          (all_years 2020 2021)) = [(2020, Finite (rnd (1 / 1))), (2021, Finite (rnd (1 / 1)))]
   \<and> fig_avg rnd
       (filtered_df
          (frame_of (sheet_of [entry 2020 (Some ''Italy''), entry 2021 None, entry 2021 (Some ''''),
                               entry 2021 (Some ''France'')]))
          (all_years 2020 2021)) = [(2020, Finite (rnd (1 / 1))), (2021, Finite (rnd (1 / 3)))]"
proof -
  let ?two = "filtered_df
        (frame_of (sheet_of [entry 2020 (Some ''Italy''), entry 2021 None, entry 2021 (Some ''''),
                             entry 2021 (Some ''France'')]))
        (all_years 2020 2021)"
  have t1: "map (\<lambda>(y, group). (y, map num_countries group))
              (groupby_year (filter has_country_data (drows ?two))) = [(2020, [1]), (2021, [1])]"
    by code_simp
  have t2: "map (\<lambda>(y, group). (y, map num_countries group)) (groupby_year (drows ?two))
            = [(2020, [1]), (2021, [0, 0, 1])]"
    by code_simp
  have ta: "avg_countries_with_data rnd ?two
            = [(2020, Finite (rnd (1 / 1))), (2021, Finite (rnd (1 / 1)))]"
    unfolding avg_countries_with_data_def group_means_split t1 by (simp add: mean_def)
  have tb: "fig_avg rnd ?two = [(2020, Finite (rnd (1 / 1))), (2021, Finite (rnd (1 / 3)))]"
    unfolding fig_avg_def Let_def avg_countries_all_def group_means_split t2
    by (simp add: mean_def)
  let ?fdf = "filtered_df
        (frame_of (sheet_of [entry 2021 None, entry 2021 (Some ''''), entry 2021 (Some ''France'')]))
        (all_years 2021 2021)"
  have h: "map has_country_data (drows ?fdf) = [False, False, True]"
    by code_simp
  have g1: "map (\<lambda>(y, group). (y, map num_countries group))
              (groupby_year (filter has_country_data (drows ?fdf))) = [(2021, [1])]"
    by code_simp
  have g2: "map (\<lambda>(y, group). (y, map num_countries group)) (groupby_year (drows ?fdf))
            = [(2021, [0, 0, 1])]"
    by code_simp
  have a: "avg_countries_with_data rnd ?fdf = [(2021, Finite (rnd (1 / 1)))]"
    unfolding avg_countries_with_data_def group_means_split g1 by (simp add: mean_def)
  have b: "fig_avg rnd ?fdf = [(2021, Finite (rnd (1 / 3)))]"
    unfolding fig_avg_def Let_def avg_countries_all_def group_means_split g2
    by (simp add: mean_def)
  from h a b ta tb show ?thesis by blast
qed

text \<open>
  Claim C10. A record whose countries field is a text that is not empty and consists of
  white space, or of commas and white space, parses to no country, so its
  \<^verbatim>\<open>num_countries\<close> is 0; yet its flag \<^verbatim>\<open>has_country_data\<close> is true. It is
  therefore a record of its year in the mean over the records with country data, and in
  the mean that the chart shows: in both, the mean of its year is the sum over the
  other records of the year divided by their number plus one (and rounded).
\<close>

theorem separators_only_record_in_mean:
  assumes "r \<in> set (drows fdf)"
    and "countries_for_analysis r = Some s"
    and "s \<noteq> []"
    and "\<forall>c\<in>set s. isspace c \<or> c = CHR '',''"
  shows "get_countries_from_string (countries_for_analysis r) = []
         \<and> num_countries r = 0
         \<and> has_country_data r
         \<and> r \<in> set (year_group (filter has_country_data (drows fdf)) (year r))
         \<and> map_of (avg_countries_with_data rnd fdf) (year r)
             = Some (mean rnd (map num_countries
                                 (year_group (filter has_country_data (drows fdf)) (year r))))
         \<and> mean rnd (map num_countries (year_group (filter has_country_data (drows fdf)) (year r)))
             = Finite (rnd (of_int (sum_list (map num_countries
                          (remove1 r (year_group (filter has_country_data (drows fdf)) (year r)))))
                       / of_nat (length (remove1 r
                            (year_group (filter has_country_data (drows fdf)) (year r))) + 1)))
         \<and> r \<in> set (year_group (drows fdf) (year r))
         \<and> map_of (fig_avg rnd fdf) (year r)
             = Some (mean rnd (map num_countries (year_group (drows fdf) (year r))))
         \<and> mean rnd (map num_countries (year_group (drows fdf) (year r)))
             = Finite (rnd (of_int (sum_list (map num_countries
                          (remove1 r (year_group (drows fdf) (year r)))))
                       / of_nat (length (remove1 r (year_group (drows fdf) (year r))) + 1)))"
proof -
  have p: "get_countries_from_string (countries_for_analysis r) = []"
    using separators_only [OF assms(4)] assms(2) by simp
  have n: "num_countries r = 0"
    using p by (simp add: num_countries_length)
  have h: "has_country_data r"
    using assms(2,3) by (simp add: has_country_data_def)
  have g1: "r \<in> set (year_group (filter has_country_data (drows fdf)) (year r))"
    using assms(1) h by (simp add: year_group_def)
  have g2: "r \<in> set (year_group (drows fdf) (year r))"
    using assms(1) by (simp add: year_group_def)
  have y1: "year r \<in> year ` set (filter has_country_data (drows fdf))"
    using assms(1) h by auto
  have y2: "year r \<in> year ` set (drows fdf)"
    using assms(1) by auto
  have m1: "map_of (avg_countries_with_data rnd fdf) (year r)
            = Some (mean rnd (map num_countries
                                (year_group (filter has_country_data (drows fdf)) (year r))))"
    unfolding avg_countries_with_data_def year_group_def by (rule map_of_group_means [OF y1])
  have m2: "map_of (fig_avg rnd fdf) (year r)
            = Some (mean rnd (map num_countries (year_group (drows fdf) (year r))))"
    unfolding fig_avg_def Let_def avg_countries_all_def year_group_def
    by (rule map_of_group_means [OF y2])
  note z1 = mean_with_zero [OF g1 n, of rnd]
  note z2 = mean_with_zero [OF g2 n, of rnd]
  from p n h g1 m1 z1 g2 m2 z2 show ?thesis by blast
qed

text \<open>
  The theorem at two records of 2021 with the fields \<^verbatim>\<open>" , "\<close> and
  \<^verbatim>\<open>"France, Italy"\<close>, in exact arithmetic: the first counts no country and has
  country data, and both means of 2021 are (0 + 2) / 2 = 1.
\<close>

theorem separators_only_record_in_mean_witness:
  "countries_for_analysis (hd (drows (filtered_df
       (frame_of (sheet_of [entry 2021 (Some '' , ''), entry 2021 (Some ''France, Italy'')]))
       (all_years 2021 2021)))) = Some '' , ''
   \<and> num_countries (hd (drows (filtered_df
       (frame_of (sheet_of [entry 2021 (Some '' , ''), entry 2021 (Some ''France, Italy'')]))
       (all_years 2021 2021)))) = 0
   \<and> has_country_data (hd (drows (filtered_df
       (frame_of (sheet_of [entry 2021 (Some '' , ''), entry 2021 (Some ''France, Italy'')]))
       (all_years 2021 2021))))
   \<and> map_of (avg_countries_with_data id (filtered_df
       (frame_of (sheet_of [entry 2021 (Some '' , ''), entry 2021 (Some ''France, Italy'')]))
       (all_years 2021 2021))) 2021 = Some (Finite 1)
   \<and> map_of (fig_avg id (filtered_df
       (frame_of (sheet_of [entry 2021 (Some '' , ''), entry 2021 (Some ''France, Italy'')]))
       (all_years 2021 2021))) 2021 = Some (Finite 1)"
proof -
  let ?fdf = "filtered_df
       (frame_of (sheet_of [entry 2021 (Some '' , ''), entry 2021 (Some ''France, Italy'')]))
       (all_years 2021 2021)"
  let ?r = "hd (drows ?fdf)"
  have ne: "drows ?fdf \<noteq> []" by code_simp
  then have r: "?r \<in> set (drows ?fdf)" by simp
  have c: "countries_for_analysis ?r = Some '' , ''" by code_simp
  have s: "'' , '' \<noteq> []" by simp
  have a: "\<forall>c\<in>set '' , ''. isspace c \<or> c = CHR '',''" by code_simp
  have y: "year ?r = 2021" by code_simp
  have v1: "mean id (map num_countries (year_group (filter has_country_data (drows ?fdf)) 2021))
            = Finite 1"
    by code_simp
  have v2: "mean id (map num_countries (year_group (drows ?fdf) 2021)) = Finite 1"
    by code_simp
  note t = separators_only_record_in_mean [OF r c s a, of id, unfolded y]
  from t have "num_countries ?r = 0" and "has_country_data ?r"
    by blast+
  moreover from t v1 have "map_of (avg_countries_with_data id ?fdf) 2021 = Some (Finite 1)"
    by simp
  moreover from t v2 have "map_of (fig_avg id ?fdf) 2021 = Some (Finite 1)"
    by simp
  ultimately show ?thesis using c by blast
qed

section \<open>The producers\<close>

lemma Counter_Nil: "Counter [] = []"
  by (simp add: Counter_def)

lemma most_common_Nil: "most_common n [] = []"
  by (simp add: most_common_def sort_descending_def)

text \<open>
  Claim C8, as stated: for a selected country with no matching record in the filtered
  frame, where no record has the flag of the country set or every record that has it
  set has no producer data, the ranking of producers is the empty list. A producer cell
  that holds a blank text has no producer data, but it is a text and not a missing
  cell, so \<^verbatim>\<open>productoras_lista\<close> gives it the one producer \<^verbatim>\<open>''\<close>. For a file with
  a record of France of 2020 whose producer cell is \<^verbatim>\<open>" "\<close> and a record of Italy of
  2021, the ranking of France is not empty: it has the one row of the empty name.
\<close>

theorem blank_producer_is_ranked:
  "map productoras_consolidadas_normalized
     (drows (filtered_df
        (frame_of (sheet_of [(entry 2020 (Some ''France''))\<lparr>productoras_normalizadas := Some '' ''\<rparr>,
                             entry 2021 (Some ''Italy'')]))
        (all_years 2020 2021))) = [Some '' '', None]
   \<and> flag_total
       (filtered_df
          (frame_of (sheet_of [(entry 2020 (Some ''France''))\<lparr>productoras_normalizadas := Some '' ''\<rparr>,
                               entry 2021 (Some ''Italy'')]))
          (all_years 2020 2021)) (ustr ''France'') = 1
   \<and> get_top_productoras
       (filtered_df
          (frame_of (sheet_of [(entry 2020 (Some ''France''))\<lparr>productoras_normalizadas := Some '' ''\<rparr>,
                               entry 2021 (Some ''Italy'')]))
          (all_years 2020 2021)) (ustr ''France'') 1 10 = Inr [('''', 1)]
   \<and> tab3
       (filtered_df
          (frame_of (sheet_of [(entry 2020 (Some ''France''))\<lparr>productoras_normalizadas := Some '' ''\<rparr>,
                               entry 2021 (Some ''Italy'')]))
          (all_years 2020 2021)) (ustr ''France'') = Ranking [('''', 1)]"
  by code_simp

text \<open>
  Claim C8, amended. For a selected country, the ranking of producers is the empty
  list, and no error, when no record of the filtered frame has the flag of the country
  set, and when every record that has it set has a missing producer cell. The tab then
  shows the notice that there is no producer data. The selected country is one of the
  country columns of the frame, and the frame has the producer column, as in the branch
  of the tab that calls the function.
\<close>

theorem producer_ranking_empty:
  assumes "country \<in> set (country_names fdf)"
    and "with_productoras fdf"
    and "\<forall>r\<in>set (drows fdf). flag r country = 1 \<longrightarrow> productoras_consolidadas_normalized r = None"
  shows "get_top_productoras fdf country v n = Inr []
         \<and> tab3 fdf country = Info_no_data country"
proof -
  have e: "concat (map productoras_lista (filter (\<lambda>r. flag r country = 1) (drows fdf))) = []"
    using assms(3) by (auto simp: productoras_lista_def)
  have top: "get_top_productoras fdf country v n = Inr []" for v n
    unfolding get_top_productoras_def Let_def e
    using assms(1,2) by (simp add: Counter_Nil most_common_Nil)
  then show ?thesis using assms(2) by (simp add: tab3_def)
qed

text \<open>
  The theorem at a file with a record of France of 2020 and a record of Italy of 2021,
  both without producers: in the range 2021 to 2021 no record has the flag of France
  set, in the range 2020 to 2021 the one record of France has a missing producer cell.
\<close>

theorem producer_ranking_empty_witness:
  "flag_total
     (filtered_df (frame_of (sheet_of [entry 2020 (Some ''France''), entry 2021 (Some ''Italy'')]))
        (all_years 2021 2021)) (ustr ''France'') = 0
   \<and> get_top_productoras
       (filtered_df (frame_of (sheet_of [entry 2020 (Some ''France''), entry 2021 (Some ''Italy'')]))
          (all_years 2021 2021)) (ustr ''France'') 1 10 = Inr []
   \<and> flag_total
       (filtered_df (frame_of (sheet_of [entry 2020 (Some ''France''), entry 2021 (Some ''Italy'')]))
          (all_years 2020 2021)) (ustr ''France'') = 1
   \<and> map productoras_consolidadas_normalized
       (drows (filtered_df
          (frame_of (sheet_of [entry 2020 (Some ''France''), entry 2021 (Some ''Italy'')]))
          (all_years 2020 2021))) = [None, None]
   \<and> get_top_productoras
       (filtered_df (frame_of (sheet_of [entry 2020 (Some ''France''), entry 2021 (Some ''Italy'')]))
          (all_years 2020 2021)) (ustr ''France'') 1 10 = Inr []
   \<and> tab3
       (filtered_df (frame_of (sheet_of [entry 2020 (Some ''France''), entry 2021 (Some ''Italy'')]))
          (all_years 2020 2021)) (ustr ''France'') = Info_no_data (ustr ''France'')"
proof -
  let ?df = "frame_of (sheet_of [entry 2020 (Some ''France''), entry 2021 (Some ''Italy'')])"
  let ?x1 = "filtered_df ?df (all_years 2021 2021)"
  let ?x2 = "filtered_df ?df (all_years 2020 2021)"
  have c1: "(ustr ''France'') \<in> set (country_names ?x1)" by code_simp
  have c2: "(ustr ''France'') \<in> set (country_names ?x2)" by code_simp
  have w1: "with_productoras ?x1" by code_simp
  have w2: "with_productoras ?x2" by code_simp
  have f1: "flag_total ?x1 (ustr ''France'') = 0" by code_simp
  have f2: "flag_total ?x2 (ustr ''France'') = 1" by code_simp
  have p: "map productoras_consolidadas_normalized (drows ?x2) = [None, None]" by code_simp
  have a1: "\<forall>r\<in>set (drows ?x1). flag r (ustr ''France'') = 1 \<longrightarrow> productoras_consolidadas_normalized r = None"
    by code_simp
  have a2: "\<forall>r\<in>set (drows ?x2). flag r (ustr ''France'') = 1 \<longrightarrow> productoras_consolidadas_normalized r = None"
    by code_simp
  from producer_ranking_empty [OF c1 w1 a1, of 1 10] producer_ranking_empty [OF c2 w2 a2, of 1 10]
    f1 f2 p
  show ?thesis by blast
qed

text \<open>
  Claim C9. The producer normalizer exposes one producer column,
  \<^verbatim>\<open>productoras_consolidadas_normalized\<close>: it is the column
  \<^verbatim>\<open>productoras_normalizadas\<close> when the file has that one, also when it has both, and
  otherwise the column \<^verbatim>\<open>productoras_consolidadas\<close> when the file has that one. When
  the file has neither, loading still succeeds, and the producer tab shows the warning
  that the column is missing instead of failing.
\<close>

theorem producer_normalizer:
  assumes "has_countries sh"
  shows "\<exists>df vocabulary. load_data (Some sh) = Inr (df, vocabulary)
           \<and> with_productoras df
               = (has_productoras_normalizadas sh \<or> has_productoras_consolidadas sh)
           \<and> (has_productoras_normalizadas sh \<longrightarrow>
                map productoras_consolidadas_normalized (drows df)
                = map productoras_normalizadas (rows sh))
           \<and> (\<not> has_productoras_normalizadas sh \<and> has_productoras_consolidadas sh \<longrightarrow>
                map productoras_consolidadas_normalized (drows df)
                = map productoras_consolidadas (rows sh))
           \<and> (\<not> has_productoras_normalizadas sh \<and> \<not> has_productoras_consolidadas sh \<longrightarrow>
                tab3 (filtered_df df f) selected_country = Warning_no_column)"
proof -
  obtain df vocabulary where l: "load_data (Some sh) = Inr (df, vocabulary)"
    using assms by (simp add: load_data_def Let_def)
  from load_data_Inr [OF l] have
    w: "with_productoras df = (has_productoras_normalizadas sh \<or> has_productoras_consolidadas sh)"
    and p: "map productoras_consolidadas_normalized (drows df) = map (producer_column sh) (rows sh)"
    by auto
  have a: "map productoras_consolidadas_normalized (drows df) = map productoras_normalizadas (rows sh)"
    if "has_productoras_normalizadas sh"
    using p that by (simp add: producer_column_def)
  have b: "map productoras_consolidadas_normalized (drows df) = map productoras_consolidadas (rows sh)"
    if "\<not> has_productoras_normalizadas sh \<and> has_productoras_consolidadas sh"
    using p that by (simp add: producer_column_def)
  have c: "tab3 (filtered_df df f) selected_country = Warning_no_column"
    if "\<not> has_productoras_normalizadas sh \<and> \<not> has_productoras_consolidadas sh"
    using w that by (simp add: tab3_def with_productoras_filtered_df)
  from l w a b c show ?thesis by blast
qed

text \<open>
  The theorem at a file whose one entry has the producers \<^verbatim>\<open>"A, B"\<close> in the first
  column and \<^verbatim>\<open>"C"\<close> in the second: with both columns the first is taken, without
  the first the second, and without both the tab warns.
\<close>

theorem producer_normalizer_witness:
  "has_countries producers_example
   \<and> map productoras_consolidadas_normalized (drows (frame_of producers_example)) = [Some ''A, B'']
   \<and> map productoras_consolidadas_normalized
       (drows (frame_of (producers_example\<lparr>has_productoras_normalizadas := False\<rparr>))) = [Some ''C'']
   \<and> tab3 (filtered_df
             (frame_of (producers_example\<lparr>has_productoras_normalizadas := False,
                                           has_productoras_consolidadas := False\<rparr>))
             (all_years 2020 2020)) (ustr ''France'') = Warning_no_column"
proof -
  let ?s1 = "producers_example"
  let ?s2 = "producers_example\<lparr>has_productoras_normalizadas := False\<rparr>"
  let ?s3 = "producers_example\<lparr>has_productoras_normalizadas := False,
                               has_productoras_consolidadas := False\<rparr>"
  have h1: "has_countries ?s1" and h2: "has_countries ?s2" and h3: "has_countries ?s3"
    by (simp_all add: producers_example_def sheet_of_def)
  have n1: "has_productoras_normalizadas ?s1"
    and n2: "\<not> has_productoras_normalizadas ?s2 \<and> has_productoras_consolidadas ?s2"
    and n3: "\<not> has_productoras_normalizadas ?s3 \<and> \<not> has_productoras_consolidadas ?s3"
    by (simp_all add: producers_example_def sheet_of_def)
  have r1: "map productoras_normalizadas (rows ?s1) = [Some ''A, B'']"
    and r2: "map productoras_consolidadas (rows ?s2) = [Some ''C'']"
    by (simp_all add: producers_example_def sheet_of_def entry_def)
  from producer_normalizer [OF h1] n1 obtain df1 v1 where
    "load_data (Some ?s1) = Inr (df1, v1)"
    "map productoras_consolidadas_normalized (drows df1) = map productoras_normalizadas (rows ?s1)"
    by blast
  then have a: "map productoras_consolidadas_normalized (drows (frame_of ?s1)) = [Some ''A, B'']"
    using r1 by (simp add: load_data_frame_of)
  from producer_normalizer [OF h2] n2 obtain df2 v2 where
    "load_data (Some ?s2) = Inr (df2, v2)"
    "map productoras_consolidadas_normalized (drows df2) = map productoras_consolidadas (rows ?s2)"
    by blast
  then have b: "map productoras_consolidadas_normalized (drows (frame_of ?s2)) = [Some ''C'']"
    using r2 by (simp add: load_data_frame_of)
  from producer_normalizer [OF h3, of "all_years 2020 2020" "(ustr ''France'')"] n3 obtain df3 v3 where
    "load_data (Some ?s3) = Inr (df3, v3)"
    "tab3 (filtered_df df3 (all_years 2020 2020)) (ustr ''France'') = Warning_no_column"
    by blast
  then have c: "tab3 (filtered_df (frame_of ?s3) (all_years 2020 2020)) (ustr ''France'') = Warning_no_column"
    by (simp add: load_data_frame_of)
  from h1 a b c show ?thesis by blast
qed

end
